theory Spec2Isabelle
  imports Complex_Main
begin

section \<open>Histogram conditioning adapters (refiners/fluxion/adapters/histogram.py)\<close>

text \<open>
  The development embeds the classes of \<^verbatim>\<open>histogram.py\<close>. Tensor entries are
  rational numbers: counts, the pixel count and their quotient are exact, so the
  rounding of the 32-bit floats of the source is abstracted away. Every exception of
  the source is a value \<open>Inl e\<close> of a sum type.
\<close>

subsection \<open>Errors\<close>

datatype error =
    RangeLengthError            \<comment> \<open>\<^verbatim>\<open>torch.histogramdd\<close>: the range has not two entries per dimension\<close>
  | EmptyStackError             \<comment> \<open>\<^verbatim>\<open>torch.stack\<close> of an empty list\<close>
  | NotANumber                  \<comment> \<open>the result tensor holds \<^verbatim>\<open>nan\<close> (a division 0/0)\<close>
  | AmbiguousTruthValue         \<comment> \<open>\<^verbatim>\<open>bool(t)\<close> of a tensor that has not exactly one element\<close>
  | BroadcastError              \<comment> \<open>the shapes of an elementwise operation do not broadcast\<close>
  | EmptyTensorValueError       \<comment> \<open>\<^verbatim>\<open>ValueError("Cannot compute histogram embedding for empty tensor")\<close>\<close>
  | CatShapeError               \<comment> \<open>\<^verbatim>\<open>torch.cat\<close> of tensors whose other dimensions differ\<close>
  | MissingContext string       \<comment> \<open>\<^verbatim>\<open>UseContext\<close>: no context of that name\<close>
  | MissingKey string string    \<comment> \<open>\<^verbatim>\<open>UseContext\<close>: the context has no value under the key\<close>
  | AttributeError string       \<comment> \<open>attribute lookup on an object that has no such attribute\<close>
  | ShapeError                  \<comment> \<open>a matrix product or a sum of tensors whose shapes do not fit\<close>
  | LayerError string           \<comment> \<open>an error raised inside a layer taken as a parameter\<close>

subsection \<open>HistogramExtractor\<close>

text \<open>
  An image batch in the layout \<open>(batch, channels, height, width)\<close>: each image is the
  row-major list of its \<open>channels * height * width\<close> entries.
\<close>

record image_batch =
  channels :: nat
  height :: nat
  width :: nat
  images :: "rat list list"

definition well_formed :: "image_batch \<Rightarrow> bool" where
  "well_formed x = list_all (\<lambda>d. length d = channels x * height x * width x) (images x)"

text \<open>
  The batch after \<^verbatim>\<open>fl.Permute(0, 2, 3, 1)\<close>, layout \<open>(batch, height, width, channels)\<close>:
  each image is the list of its \<open>height * width\<close> points in row-major order, a point
  being the list of the channel values of one pixel.
\<close>

record point_batch =
  p_height :: nat
  p_width :: nat
  p_channels :: nat
  p_images :: "rat list list list"

definition Permute_0231 :: "image_batch \<Rightarrow> point_batch" where
  "Permute_0231 x =
     \<lparr> p_height = height x, p_width = width x, p_channels = channels x,
       p_images = map (\<lambda>d. map (\<lambda>n. map (\<lambda>c. d ! (c * (height x * width x) + n)) [0..<channels x])
                                 [0..<height x * width x])
                      (images x) \<rparr>"

text \<open>
  \<^verbatim>\<open>torch.histogramdd(points, bins=b, range=[lo, hi, lo, hi, lo, hi])\<close>: along every axis
  the interval \<open>[lo, hi]\<close> is cut into \<open>b\<close> bins of equal width, every bin closed on
  the left and open on the right but the last one, which is closed; a point with a
  coordinate outside \<open>[lo, hi]\<close> is not counted.
\<close>

definition torch_bin :: "nat \<Rightarrow> rat \<Rightarrow> rat \<Rightarrow> rat \<Rightarrow> nat option" where
  "torch_bin b lo hi v =
     (if v < lo \<or> hi < v then None
      else if v = hi then Some (b - 1)
      else Some (nat \<lfloor>(v - lo) * of_nat b / (hi - lo)\<rfloor>))"

definition point_bins :: "nat \<Rightarrow> rat \<Rightarrow> rat \<Rightarrow> rat list \<Rightarrow> nat list option" where
  "point_bins b lo hi p =
     (if list_all (\<lambda>v. torch_bin b lo hi v \<noteq> None) p
      then Some (map (\<lambda>v. the (torch_bin b lo hi v)) p) else None)"

definition bin_count :: "nat \<Rightarrow> rat \<Rightarrow> rat \<Rightarrow> rat list list \<Rightarrow> nat list \<Rightarrow> nat" where
  "bin_count b lo hi ps ix = length (filter (\<lambda>p. point_bins b lo hi p = Some ix) ps)"

type_synonym cube = "rat list list list"

definition torch_histogramdd3 ::
  "nat \<Rightarrow> rat list list \<Rightarrow> nat \<Rightarrow> rat \<Rightarrow> rat \<Rightarrow> error + cube" where
  "torch_histogramdd3 dims ps b lo hi =
     (if dims \<noteq> 3 then Inl RangeLengthError
      else Inr (map (\<lambda>i. map (\<lambda>j. map (\<lambda>k. of_nat (bin_count b lo hi ps [i, j, k]))
                                      [0..<b]) [0..<b]) [0..<b]))"

definition cube_div :: "cube \<Rightarrow> nat \<Rightarrow> error + cube" where
  "cube_div h n =
     (if n = 0 then Inl NotANumber
      else Inr (map (map (map (\<lambda>c. c / of_nat n))) h))"

text \<open>The loop body of \<^verbatim>\<open>histogramdd\<close> for one image of the batch.\<close>

definition image_histogram :: "nat \<Rightarrow> point_batch \<Rightarrow> rat list list \<Rightarrow> error + cube" where
  "image_histogram color_bits x ps =
     (let num_pixels = p_height x * p_width x in
      case torch_histogramdd3 (p_channels x) ps (2 ^ color_bits) 0 (2 ^ color_bits) of
        Inl e \<Rightarrow> Inl e
      | Inr hist_dd \<Rightarrow> cube_div hist_dd num_pixels)"

text \<open>The loop over the batch: the first failing image ends it.\<close>

fun histograms_loop :: "nat \<Rightarrow> point_batch \<Rightarrow> rat list list list \<Rightarrow> error + cube list" where
  "histograms_loop color_bits x [] = Inr []"
| "histograms_loop color_bits x (ps # rest) =
     (case image_histogram color_bits x ps of
        Inl e \<Rightarrow> Inl e
      | Inr hist \<Rightarrow>
          (case histograms_loop color_bits x rest of
             Inl e \<Rightarrow> Inl e
           | Inr hs \<Rightarrow> Inr (hist # hs)))"

definition torch_stack :: "'a list \<Rightarrow> error + 'a list" where
  "torch_stack hs = (if hs = [] then Inl EmptyStackError else Inr hs)"

definition histogramdd :: "nat \<Rightarrow> point_batch \<Rightarrow> error + cube list" where
  "histogramdd color_bits x =
     (case histograms_loop color_bits x (p_images x) of
        Inl e \<Rightarrow> Inl e
      | Inr histograms \<Rightarrow> torch_stack histograms)"

definition HistogramExtractor :: "nat \<Rightarrow> image_batch \<Rightarrow> error + cube list" where
  "HistogramExtractor color_bits x = histogramdd color_bits (Permute_0231 x)"

definition cube_sum :: "cube \<Rightarrow> rat" where
  "cube_sum h = sum_list (map (\<lambda>m. sum_list (map sum_list m)) h)"

definition cube_shape :: "nat \<Rightarrow> cube \<Rightarrow> bool" where
  "cube_shape s h =
     (length h = s \<and> list_all (\<lambda>m. length m = s \<and> list_all (\<lambda>r. length r = s) m) h)"

definition cube_nonneg :: "cube \<Rightarrow> bool" where
  "cube_nonneg h = list_all (list_all (list_all (\<lambda>c. 0 \<le> c))) h"

definition values_within :: "rat \<Rightarrow> rat \<Rightarrow> image_batch \<Rightarrow> bool" where
  "values_within lo hi x = list_all (list_all (\<lambda>v. lo \<le> v \<and> v \<le> hi)) (images x)"

subsection \<open>Tensors\<close>

text \<open>A tensor of any rank: its shape and its entries in row-major order.\<close>

record tensor =
  shape :: "nat list"
  data :: "rat list"

definition numel :: "tensor \<Rightarrow> nat" where
  "numel t = prod_list (shape t)"

definition tensor_ok :: "tensor \<Rightarrow> bool" where
  "tensor_ok t = (length (data t) = numel t)"

text \<open>
  Broadcasting of two shapes, aligned at their last dimension: two sizes agree when
  they are equal or one of them is 1.
\<close>

fun broadcast_rev :: "nat list \<Rightarrow> nat list \<Rightarrow> nat list option" where
  "broadcast_rev [] ys = Some ys"
| "broadcast_rev xs [] = Some xs"
| "broadcast_rev (x # xs) (y # ys) =
     (if x = y \<or> y = 1 then map_option ((#) x) (broadcast_rev xs ys)
      else if x = 1 then map_option ((#) y) (broadcast_rev xs ys)
      else None)"

definition broadcast_shapes :: "nat list \<Rightarrow> nat list \<Rightarrow> nat list option" where
  "broadcast_shapes a b = map_option rev (broadcast_rev (rev a) (rev b))"

text \<open>
  \<^verbatim>\<open>if x == y:\<close> on two tensors: \<^verbatim>\<open>x == y\<close> is the tensor of the elementwise
  comparisons, of the broadcast shape, and \<^verbatim>\<open>if\<close> asks for its truth value, which
  only a tensor of exactly one element has. A result of one element means that both
  operands have one element.
\<close>

definition tensor_eq_truth :: "tensor \<Rightarrow> tensor \<Rightarrow> error + bool" where
  "tensor_eq_truth x y =
     (case broadcast_shapes (shape x) (shape y) of
        None \<Rightarrow> Inl BroadcastError
      | Some s \<Rightarrow> if prod_list s = 1 then Inr (data x = data y) else Inl AmbiguousTruthValue)"

text \<open>
  \<^verbatim>\<open>if x == negative_histogram:\<close> where the right operand may be \<^verbatim>\<open>None\<close>: a tensor
  compared with \<^verbatim>\<open>None\<close> is the plain \<^verbatim>\<open>False\<close>.
\<close>

definition eq_truth :: "tensor \<Rightarrow> tensor option \<Rightarrow> error + bool" where
  "eq_truth x negative_histogram =
     (case negative_histogram of
        None \<Rightarrow> Inr False
      | Some y \<Rightarrow> tensor_eq_truth x y)"

definition zeros_like :: "tensor \<Rightarrow> tensor" where
  "zeros_like t = \<lparr>shape = shape t, data = map (\<lambda>_. 0) (data t)\<rparr>"

text \<open>The expression \<^verbatim>\<open>(zeros_like(x) + 1.0) * 1 / numel\<close>.\<close>

definition uniform_negative :: "tensor \<Rightarrow> tensor" where
  "uniform_negative x =
     \<lparr>shape = shape (zeros_like x),
      data = map (\<lambda>v. (v + 1) * 1 / of_nat (numel x)) (data (zeros_like x))\<rparr>"

text \<open>
  \<^verbatim>\<open>torch.cat(tensors=(a, b), dim=0)\<close>: the shapes agree but in the first dimension;
  a tensor of shape \<open>[0]\<close> is skipped.
\<close>

definition cat0 :: "tensor \<Rightarrow> tensor \<Rightarrow> error + tensor" where
  "cat0 a b =
     (if shape a = [0] then Inr b
      else if shape b = [0] then Inr a
      else (case (shape a, shape b) of
              (da # ra, db # rb) \<Rightarrow>
                if ra = rb then Inr \<lparr>shape = (da + db) # ra, data = data a @ data b\<rparr>
                else Inl CatShapeError
            | _ \<Rightarrow> Inl CatShapeError))"

subsection \<open>HistogramEncoder.compute\_histogram\_embedding\<close>

text \<open>
  The forward pass \<^verbatim>\<open>self(x)\<close> of the encoder chain (reshape, 3D patch convolution,
  class token, positional encoding, layer norm, transformer layers) is built from layers
  of the framework and of \<^verbatim>\<open>torch\<close>; it is the parameter \<open>self\<close>, a function that
  returns an embedding or fails with a message.
\<close>

definition encode :: "(tensor \<Rightarrow> string + tensor) \<Rightarrow> tensor \<Rightarrow> error + tensor" where
  "encode self x = (case self x of Inl m \<Rightarrow> Inl (LayerError m) | Inr e \<Rightarrow> Inr e)"

definition compute_histogram_embedding ::
  "(tensor \<Rightarrow> string + tensor) \<Rightarrow> tensor \<Rightarrow> tensor option \<Rightarrow> error + tensor" where
  "compute_histogram_embedding self x negative_histogram =
     (case encode self x of
        Inl e \<Rightarrow> Inl e
      | Inr conditional_embedding \<Rightarrow>
          (case eq_truth x negative_histogram of
             Inl e \<Rightarrow> Inl e
           | Inr same \<Rightarrow>
               if same then cat0 conditional_embedding conditional_embedding
               else
                 (case (case negative_histogram of
                          None \<Rightarrow>
                            if numel x = 0 then Inl EmptyTensorValueError
                            else Inr (uniform_negative x)
                        | Some y \<Rightarrow> Inr y) of
                    Inl e \<Rightarrow> Inl e
                  | Inr negative \<Rightarrow>
                      (case encode self negative of
                         Inl e \<Rightarrow> Inl e
                       | Inr negative_embedding \<Rightarrow>
                           cat0 negative_embedding conditional_embedding))))"

text \<open>The entries of the batch element \<open>i\<close> of a tensor whose first dimension is the batch.\<close>

definition batch_element :: "tensor \<Rightarrow> nat \<Rightarrow> rat list" where
  "batch_element t i =
     take (prod_list (tl (shape t))) (drop (i * prod_list (tl (shape t))) (data t))"

subsection \<open>Conditioning context\<close>

text \<open>A matrix (one sample of a sequence of feature vectors): its width and its rows.\<close>

record matrix =
  ncols :: nat
  rows :: "rat list list"

text \<open>
  Modelled from the spec: the shared context of the framework (\<^verbatim>\<open>Chain.set_context\<close> and
  the layer \<^verbatim>\<open>UseContext\<close> of fluxion, which are not among the sources). The spec's
  ConditioningContext is a key-value store keyed by a namespace; a write replaces the
  entry of the namespace, and a read of a missing namespace or key is a hard error.
\<close>

type_synonym contexts = "string \<Rightarrow> (string \<Rightarrow> matrix option) option"

definition set_context :: "contexts \<Rightarrow> string \<Rightarrow> (string \<Rightarrow> matrix option) \<Rightarrow> contexts" where
  "set_context ctx name entry = ctx(name \<mapsto> entry)"

record use_context =
  uc_context :: string
  uc_key :: string

definition UseContext :: "use_context \<Rightarrow> contexts \<Rightarrow> error + matrix" where
  "UseContext u ctx =
     (case ctx (uc_context u) of
        None \<Rightarrow> Inl (MissingContext (uc_context u))
      | Some entry \<Rightarrow>
          (case entry (uc_key u) of
             None \<Rightarrow> Inl (MissingKey (uc_context u) (uc_key u))
           | Some value \<Rightarrow> Inr value))"

text \<open>\<^verbatim>\<open>SD1HistogramAdapter.set_histogram_embedding\<close>.\<close>

definition set_histogram_embedding :: "contexts \<Rightarrow> matrix \<Rightarrow> contexts" where
  "set_histogram_embedding ctx histogram_embedding =
     set_context ctx ''ip_adapter'' [''clip_image_embedding'' \<mapsto> histogram_embedding]"

subsection \<open>Parameters in a store\<close>

text \<open>
  Parameter tensors live in a store: an address is handed out once, by \<open>alloc\<close>, and
  two layers share a tensor when they hold the same address.
\<close>

record heap =
  next_addr :: nat
  cells :: "nat \<Rightarrow> rat list"

definition alloc :: "rat list \<Rightarrow> heap \<Rightarrow> nat \<times> heap" where
  "alloc v h = (next_addr h, \<lparr>next_addr = Suc (next_addr h), cells = (cells h)(next_addr h := v)\<rparr>)"

record linear =
  in_features :: nat
  out_features :: nat
  weight :: nat
  bias :: "nat option"

text \<open>
  \<^verbatim>\<open>fl.Linear(in_features, out_features, bias)\<close>: a new weight of
  \<open>out_features * in_features\<close> entries and, with \<open>bias\<close>, a new bias of \<open>out_features\<close>
  entries; \<open>rng a i\<close> is the random initial value of the entry \<open>i\<close> of the tensor at
  address \<open>a\<close>.
\<close>

definition Linear_new ::
  "(nat \<Rightarrow> nat \<Rightarrow> rat) \<Rightarrow> nat \<Rightarrow> nat \<Rightarrow> bool \<Rightarrow> heap \<Rightarrow> linear \<times> heap" where
  "Linear_new rng i out b h =
     (let (w, h1) = alloc (map (rng (next_addr h)) [0..<out * i]) h in
      if b then
        (let (ba, h2) = alloc (map (rng (next_addr h1)) [0..<out]) h1 in
         (\<lparr>in_features = i, out_features = out, weight = w, bias = Some ba\<rparr>, h2))
      else (\<lparr>in_features = i, out_features = out, weight = w, bias = None\<rparr>, h1))"

subsection \<open>Attention layers of the target\<close>

text \<open>
  The attention layers of the framework, as the adapters use them: the class of the
  layer (\<^verbatim>\<open>fl.Attention\<close>, \<^verbatim>\<open>fl.SelfAttention\<close> or another subclass of \<^verbatim>\<open>fl.Attention\<close>),
  the attributes read by \<^verbatim>\<open>HistogramCrossAttention\<close>, and the four projections whose
  parameters are the layer's own weights.
\<close>

datatype attention_type = Attention | SelfAttention | AttentionSubclass string

record attention_layer =
  layer_name :: string
  layer_type :: attention_type
  inner_dim :: nat
  num_heads :: nat
  is_causal :: bool
  use_bias :: bool
  query_proj :: linear
  key_proj :: linear
  value_proj :: linear
  out_proj :: linear

definition linear_params :: "linear \<Rightarrow> nat list" where
  "linear_params l = weight l # (case bias l of None \<Rightarrow> [] | Some b \<Rightarrow> [b])"

definition layer_params :: "attention_layer \<Rightarrow> nat list" where
  "layer_params l =
     linear_params (query_proj l) @ linear_params (key_proj l) @
     linear_params (value_proj l) @ linear_params (out_proj l)"

record unet =
  attention_layers :: "attention_layer list"
  other_params :: "nat list"

definition unet_params :: "unet \<Rightarrow> nat list" where
  "unet_params u = concat (map layer_params (attention_layers u)) @ other_params u"

subsection \<open>HistogramCrossAttention and HistogramCrossAttentionAdapter\<close>

record histogram_cross_attention =
  key_use_context :: use_context
  key_linear :: linear
  value_use_context :: use_context
  value_linear :: linear
  hca_num_heads :: nat
  hca_is_causal :: bool
  hca_scale :: rat

definition HistogramCrossAttention_new ::
  "(nat \<Rightarrow> nat \<Rightarrow> rat) \<Rightarrow> attention_layer \<Rightarrow> rat \<Rightarrow> heap \<Rightarrow> histogram_cross_attention \<times> heap" where
  "HistogramCrossAttention_new rng text_cross_attention scale h =
     (let (k, h1) = Linear_new rng 4 (inner_dim text_cross_attention)
                      (use_bias text_cross_attention) h;
          (v, h2) = Linear_new rng 4 (inner_dim text_cross_attention)
                      (use_bias text_cross_attention) h1
      in (\<lparr>key_use_context = \<lparr>uc_context = ''ip_adapter'', uc_key = ''palette_embedding''\<rparr>,
           key_linear = k,
           value_use_context = \<lparr>uc_context = ''ip_adapter'', uc_key = ''palette_embedding''\<rparr>,
           value_linear = v,
           hca_num_heads = num_heads text_cross_attention,
           hca_is_causal = is_causal text_cross_attention,
           hca_scale = scale\<rparr>, h2))"

datatype adapter_class = CrossAttentionAdapter | HistogramCrossAttentionAdapter

text \<open>
  An adapter of one attention layer: the target, its structural copy (new inner nodes
  over the same leaves, so the copy holds the target's own parameters), and the added
  branch that the copy sums with its scaled dot-product attention.
\<close>

record sub_adapter =
  sa_class :: adapter_class
  sa_target :: attention_layer
  sa_clone :: attention_layer
  sa_branch :: histogram_cross_attention
  sa_scale :: rat

definition structural_copy :: "attention_layer \<Rightarrow> attention_layer" where
  "structural_copy l = l"

definition HistogramCrossAttentionAdapter_new ::
  "(nat \<Rightarrow> nat \<Rightarrow> rat) \<Rightarrow> attention_layer \<Rightarrow> rat \<Rightarrow> heap \<Rightarrow> sub_adapter \<times> heap" where
  "HistogramCrossAttentionAdapter_new rng target scale h =
     (let clone = structural_copy target;
          (histogram_cross_attention, h1) = HistogramCrossAttention_new rng clone scale h
      in (\<lparr>sa_class = HistogramCrossAttentionAdapter, sa_target = target, sa_clone = clone,
           sa_branch = histogram_cross_attention, sa_scale = scale\<rparr>, h1))"

text \<open>\<^verbatim>\<open>HistogramCrossAttentionAdapter.weights\<close>.\<close>

definition adapter_weights :: "sub_adapter \<Rightarrow> nat list" where
  "adapter_weights s = [weight (key_linear (sa_branch s)), weight (value_linear (sa_branch s))]"

text \<open>
  Modelled from the spec: \<^verbatim>\<open>CrossAttentionAdapter\<close> of the module
  \<^verbatim>\<open>latent_diffusion.image_prompt\<close>, which is imported by \<^verbatim>\<open>histogram.py\<close> and is not
  among the sources. By the spec an instance holds a structural copy of the target's
  attention, two additional learned linear projections (key and value) of the
  4-dimensional embedding into the target's inner dimension, with the target's bias
  usage, and a scale; its branch reads the embedding that the orchestrator wrote to the
  shared context, and its weights are the two projection weights.
\<close>

definition CrossAttentionAdapter_new ::
  "(nat \<Rightarrow> nat \<Rightarrow> rat) \<Rightarrow> attention_layer \<Rightarrow> rat \<Rightarrow> heap \<Rightarrow> sub_adapter \<times> heap" where
  "CrossAttentionAdapter_new rng target scale h =
     (let clone = structural_copy target;
          (k, h1) = Linear_new rng 4 (inner_dim clone) (use_bias clone) h;
          (v, h2) = Linear_new rng 4 (inner_dim clone) (use_bias clone) h1
      in (\<lparr>sa_class = CrossAttentionAdapter, sa_target = target, sa_clone = clone,
           sa_branch =
             \<lparr>key_use_context = \<lparr>uc_context = ''ip_adapter'', uc_key = ''clip_image_embedding''\<rparr>,
              key_linear = k,
              value_use_context = \<lparr>uc_context = ''ip_adapter'', uc_key = ''clip_image_embedding''\<rparr>,
              value_linear = v,
              hca_num_heads = num_heads clone,
              hca_is_causal = is_causal clone,
              hca_scale = scale\<rparr>,
           sa_scale = scale\<rparr>, h2))"

subsection \<open>SD1HistogramAdapter\<close>

record histogram_encoder =
  encoder_params :: "nat list"

record sd1_histogram_adapter =
  ad_target :: unet
  ad_histogram_encoder :: "histogram_encoder list"
  sub_adapters :: "sub_adapter list"

text \<open>
  A call \<^verbatim>\<open>cls(target=..., scale=...)\<close> of an adapter class: the constructor of the class
  runs, and the object it returns is an instance of the class that was called.
\<close>

definition instantiate ::
  "adapter_class \<Rightarrow> (nat \<Rightarrow> nat \<Rightarrow> rat) \<Rightarrow> attention_layer \<Rightarrow> rat \<Rightarrow> heap
     \<Rightarrow> sub_adapter \<times> heap" where
  "instantiate cls rng target scale h =
     (let (s, h1) = (case cls of
                       CrossAttentionAdapter \<Rightarrow> CrossAttentionAdapter_new rng target scale h
                     | HistogramCrossAttentionAdapter \<Rightarrow>
                         HistogramCrossAttentionAdapter_new rng target scale h)
      in (s\<lparr>sa_class := cls\<rparr>, h1))"

text \<open>
  The list comprehension of the constructor (lines 303 to 306), one call of
  \<^verbatim>\<open>CrossAttentionAdapter(target=cross_attn, scale=scale)\<close> after the other.
\<close>

fun build_sub_adapters ::
  "(nat \<Rightarrow> nat \<Rightarrow> rat) \<Rightarrow> rat \<Rightarrow> attention_layer list \<Rightarrow> heap \<Rightarrow> sub_adapter list \<times> heap" where
  "build_sub_adapters rng scale [] h = ([], h)"
| "build_sub_adapters rng scale (cross_attn # rest) h =
     (let (s, h1) = instantiate CrossAttentionAdapter rng cross_attn scale h;
          (ss, h2) = build_sub_adapters rng scale rest h1
      in (s # ss, h2))"

definition SD1HistogramAdapter_new ::
  "(nat \<Rightarrow> nat \<Rightarrow> rat) \<Rightarrow> unet \<Rightarrow> histogram_encoder \<Rightarrow> rat \<Rightarrow> heap
     \<Rightarrow> sd1_histogram_adapter \<times> heap" where
  "SD1HistogramAdapter_new rng target histogram_encoder scale h =
     (let (subs, h1) =
            build_sub_adapters rng scale
              (filter (\<lambda>attn. layer_type attn \<noteq> SelfAttention) (attention_layers target)) h
      in (\<lparr>ad_target = target, ad_histogram_encoder = [histogram_encoder],
           sub_adapters = subs\<rparr>, h1))"

definition weights :: "sd1_histogram_adapter \<Rightarrow> nat list" where
  "weights a = concat (map adapter_weights (sub_adapters a))"

text \<open>\<^verbatim>\<open>init.zeros_(weight)\<close> fills the tensor in place.\<close>

definition zeros_inplace :: "nat \<Rightarrow> heap \<Rightarrow> heap" where
  "zeros_inplace w h = h\<lparr>cells := (cells h)(w := map (\<lambda>_. 0) (cells h w))\<rparr>"

definition zero_init :: "sd1_histogram_adapter \<Rightarrow> heap \<Rightarrow> heap" where
  "zero_init a h = fold zeros_inplace (weights a) h"

text \<open>
  What the constructor leaves in a sub-adapter, between the store \<open>h\<close> before the
  construction and a later store \<open>h'\<close>: the copy is the target, the branch reads the
  context entry, the two projections map 4 features into the inner dimension of the
  target and carry a bias as the target does, and their weights are tensors of
  \<open>inner_dim * 4\<close> entries at addresses handed out since \<open>h\<close>.
\<close>

definition built_between :: "heap \<Rightarrow> heap \<Rightarrow> sub_adapter \<Rightarrow> bool" where
  "built_between h h' s =
     (sa_clone s = sa_target s \<and>
      key_use_context (sa_branch s) = \<lparr>uc_context = ''ip_adapter'', uc_key = ''clip_image_embedding''\<rparr> \<and>
      value_use_context (sa_branch s) = \<lparr>uc_context = ''ip_adapter'', uc_key = ''clip_image_embedding''\<rparr> \<and>
      in_features (key_linear (sa_branch s)) = 4 \<and>
      in_features (value_linear (sa_branch s)) = 4 \<and>
      out_features (key_linear (sa_branch s)) = inner_dim (sa_target s) \<and>
      out_features (value_linear (sa_branch s)) = inner_dim (sa_target s) \<and>
      (bias (key_linear (sa_branch s)) = None) = (\<not> use_bias (sa_target s)) \<and>
      (bias (value_linear (sa_branch s)) = None) = (\<not> use_bias (sa_target s)) \<and>
      next_addr h \<le> weight (key_linear (sa_branch s)) \<and>
      weight (key_linear (sa_branch s)) < next_addr h' \<and>
      next_addr h \<le> weight (value_linear (sa_branch s)) \<and>
      weight (value_linear (sa_branch s)) < next_addr h' \<and>
      length (cells h' (weight (key_linear (sa_branch s)))) = inner_dim (sa_target s) * 4 \<and>
      length (cells h' (weight (value_linear (sa_branch s)))) = inner_dim (sa_target s) * 4)"

subsection \<open>Forward passes\<close>

definition bind_err :: "error + 'a \<Rightarrow> ('a \<Rightarrow> error + 'b) \<Rightarrow> error + 'b" where
  "bind_err m f = (case m of Inl e \<Rightarrow> Inl e | Inr x \<Rightarrow> f x)"

text \<open>\<^verbatim>\<open>fl.Linear\<close>: every row \<open>r\<close> becomes \<open>r W\<^sup>T + b\<close>; the weight is stored row by row.\<close>

definition Linear_forward :: "heap \<Rightarrow> linear \<Rightarrow> matrix \<Rightarrow> error + matrix" where
  "Linear_forward h l x =
     (if ncols x = in_features l then
        Inr \<lparr>ncols = out_features l,
             rows = map (\<lambda>r. map (\<lambda>out.
                      sum_list (map (\<lambda>c. r ! c * cells h (weight l) ! (out * in_features l + c))
                                    [0..<in_features l])
                      + (case bias l of None \<Rightarrow> 0 | Some b \<Rightarrow> cells h b ! out))
                    [0..<out_features l]) (rows x)\<rparr>
      else Inl ShapeError)"

text \<open>
  \<^verbatim>\<open>ScaledDotProductAttention(num_heads, is_causal)\<close>, a layer of the framework over
  \<^verbatim>\<open>torch\<close>: for the query row \<open>i\<close> and a head, the attention probabilities over the
  keys (the softmax of the scaled products, masked when causal) are the list
  \<open>attn num_heads is_causal head i q k\<close>, a parameter; the row \<open>i\<close> of the output mixes the
  value rows with them, the column \<open>c\<close> belonging to the head
  \<open>c div (ncols v div num_heads)\<close>.
\<close>

type_synonym attention_probabilities = "nat \<Rightarrow> bool \<Rightarrow> nat \<Rightarrow> nat \<Rightarrow> matrix \<Rightarrow> matrix \<Rightarrow> rat list"

definition ScaledDotProductAttention ::
  "attention_probabilities \<Rightarrow> nat \<Rightarrow> bool \<Rightarrow> matrix \<Rightarrow> matrix \<Rightarrow> matrix \<Rightarrow> error + matrix" where
  "ScaledDotProductAttention attn n_heads causal q k v =
     (if ncols q = ncols k \<and> length (rows k) = length (rows v) then
        Inr \<lparr>ncols = ncols v,
             rows = map (\<lambda>i. map (\<lambda>c.
                      sum_list (map (\<lambda>j. attn n_heads causal (c div (ncols v div n_heads)) i q k ! j
                                          * (rows v ! j ! c))
                                    [0..<length (rows v)]))
                    [0..<ncols v]) [0..<length (rows q)]\<rparr>
      else Inl ShapeError)"

definition Multiply :: "rat \<Rightarrow> matrix \<Rightarrow> matrix" where
  "Multiply s m = \<lparr>ncols = ncols m, rows = map (map (\<lambda>v. s * v)) (rows m)\<rparr>"


text \<open>
  The chain of \<^verbatim>\<open>HistogramCrossAttention\<close> on the projected \<open>(q, k, v)\<close>:
  \<^verbatim>\<open>Distribute\<close> keeps \<open>q\<close> and replaces \<open>k\<close> and \<open>v\<close> by the projections of the
  embedding read from the context; then the attention, then \<^verbatim>\<open>Multiply(scale)\<close>.
\<close>

definition HistogramCrossAttention_forward ::
  "attention_probabilities \<Rightarrow> heap \<Rightarrow> contexts \<Rightarrow> histogram_cross_attention
     \<Rightarrow> matrix \<Rightarrow> matrix \<Rightarrow> matrix \<Rightarrow> error + matrix" where
  "HistogramCrossAttention_forward attn h ctx b q k v =
     bind_err (UseContext (key_use_context b) ctx) (\<lambda>ek.
     bind_err (Linear_forward h (key_linear b) ek) (\<lambda>k'.
     bind_err (UseContext (value_use_context b) ctx) (\<lambda>ev.
     bind_err (Linear_forward h (value_linear b) ev) (\<lambda>v'.
     bind_err (ScaledDotProductAttention attn (hca_num_heads b) (hca_is_causal b) q k' v') (\<lambda>a.
     Inr (Multiply (hca_scale b) a))))))"






subsection \<open>The attributes of HistogramExtractor\<close>

text \<open>
  The names that the body of \<^verbatim>\<open>class HistogramExtractor\<close> binds: its two methods and the
  attribute set by the constructor. \<open>getattr_of own inherited name\<close> looks a name up in
  them and then in the names that the base class provides.
\<close>

definition HistogramExtractor_names :: "string list" where
  "HistogramExtractor_names = [''__init__'', ''histogramdd'', ''color_bits'']"

definition getattr_of :: "string list \<Rightarrow> string list \<Rightarrow> string \<Rightarrow> error + string" where
  "getattr_of own inherited name =
     (if name \<in> set own then Inr name
      else if name \<in> set inherited then Inr name
      else Inl (AttributeError name))"

subsection \<open>A small target\<close>

text \<open>
  A target of two attention layers, a self-attention and a cross-attention without bias,
  whose parameters and those of an encoder are the tensors at the addresses 0 to 9 of a
  store.
\<close>

definition example_self_attention :: attention_layer where
  "example_self_attention =
     \<lparr>layer_name = ''attn1'', layer_type = SelfAttention, inner_dim = 2, num_heads = 1,
      is_causal = False, use_bias = False,
      query_proj = \<lparr>in_features = 2, out_features = 2, weight = 4, bias = None\<rparr>,
      key_proj = \<lparr>in_features = 2, out_features = 2, weight = 5, bias = None\<rparr>,
      value_proj = \<lparr>in_features = 2, out_features = 2, weight = 6, bias = None\<rparr>,
      out_proj = \<lparr>in_features = 2, out_features = 2, weight = 7, bias = None\<rparr>\<rparr>"

definition example_cross_attention :: attention_layer where
  "example_cross_attention =
     \<lparr>layer_name = ''attn2'', layer_type = Attention, inner_dim = 2, num_heads = 1,
      is_causal = False, use_bias = False,
      query_proj = \<lparr>in_features = 2, out_features = 2, weight = 0, bias = None\<rparr>,
      key_proj = \<lparr>in_features = 3, out_features = 2, weight = 1, bias = None\<rparr>,
      value_proj = \<lparr>in_features = 3, out_features = 2, weight = 2, bias = None\<rparr>,
      out_proj = \<lparr>in_features = 2, out_features = 2, weight = 3, bias = None\<rparr>\<rparr>"

definition example_unet :: unet where
  "example_unet =
     \<lparr>attention_layers = [example_self_attention, example_cross_attention], other_params = [8]\<rparr>"

definition example_encoder :: histogram_encoder where
  "example_encoder = \<lparr>encoder_params = [9]\<rparr>"

definition example_heap :: heap where
  "example_heap = \<lparr>next_addr = 10, cells = (\<lambda>a. replicate 6 1)\<rparr>"




subsection \<open>Properties of HistogramExtractor\<close>

lemma torch_bin_in_range:
  assumes "0 \<le> v" "v \<le> of_nat s" "0 < s"
  shows "\<exists>i<s. torch_bin s 0 (of_nat s) v = Some i"
proof (cases "v = of_nat s")
  case True
  with assms show ?thesis by (simp add: torch_bin_def)
next
  case False
  with assms have lt: "v < of_nat s" by simp
  have "\<lfloor>v\<rfloor> < int s" using lt by (simp add: floor_less_iff)
  moreover have "0 \<le> \<lfloor>v\<rfloor>" using assms(1) by simp
  ultimately have "nat \<lfloor>v\<rfloor> < s" by linarith
  moreover have "torch_bin s 0 (of_nat s) v = Some (nat \<lfloor>v\<rfloor>)"
    using assms False lt by (simp add: torch_bin_def)
  ultimately show ?thesis by simp
qed

lemma cube_sum_tab:
  "cube_sum (map (\<lambda>i. map (\<lambda>j. map (\<lambda>k. f i j k) [0..<b]) [0..<b]) [0..<b])
   = (\<Sum>i = 0..<b. \<Sum>j = 0..<b. \<Sum>k = 0..<b. f i j k)"
  by (simp add: cube_sum_def comp_def interv_sum_list_conv_sum_set_nat)

lemma sum_indicator1:
  "a < (s::nat) \<Longrightarrow> (\<Sum>k = 0..<s. if a = k then (1::nat) else 0) = 1"
  by (induction s) (auto simp: less_Suc_eq)

lemma sum_indicator3:
  assumes "i0 < (s::nat)" "j0 < s" "k0 < s"
  shows "(\<Sum>i = 0..<s. \<Sum>j = 0..<s. \<Sum>k = 0..<s.
            if [i0, j0, k0] = [i, j, k] then (1::nat) else 0) = 1"
proof -
  have k: "\<And>i j. (\<Sum>k = 0..<s. if [i0, j0, k0] = [i, j, k] then (1::nat) else 0)
                 = (if i0 = i \<and> j0 = j then 1 else 0)"
    using assms(3) by (auto simp: sum_indicator1)
  have j: "\<And>i. (\<Sum>j = 0..<s. if i0 = i \<and> j0 = j then (1::nat) else 0)
               = (if i0 = i then 1 else 0)"
    using assms(2) by (auto simp: sum_indicator1)
  have i: "(\<Sum>i = 0..<s. if i0 = i then (1::nat) else 0) = 1"
    using assms(1) by (auto simp: sum_indicator1)
  show ?thesis by (simp only: k j i)
qed

lemma bin_count_Cons:
  "bin_count b lo hi (p # ps) ix
   = (if point_bins b lo hi p = Some ix then 1 else 0) + bin_count b lo hi ps ix"
  by (simp add: bin_count_def)

lemma bin_count_total:
  assumes "list_all (\<lambda>p. \<exists>i<s. \<exists>j<s. \<exists>k<s. point_bins s lo hi p = Some [i, j, k]) ps"
  shows "(\<Sum>i = 0..<s. \<Sum>j = 0..<s. \<Sum>k = 0..<s. bin_count s lo hi ps [i, j, k]) = length ps"
  using assms
proof (induction ps)
  case Nil
  show ?case by (simp add: bin_count_def)
next
  case (Cons p ps)
  then obtain i0 j0 k0 where b: "i0 < s" "j0 < s" "k0 < s"
    and pb: "point_bins s lo hi p = Some [i0, j0, k0]" by auto
  have "(\<Sum>i = 0..<s. \<Sum>j = 0..<s. \<Sum>k = 0..<s. bin_count s lo hi (p # ps) [i, j, k])
      = (\<Sum>i = 0..<s. \<Sum>j = 0..<s. \<Sum>k = 0..<s. if [i0, j0, k0] = [i, j, k] then (1::nat) else 0)
        + (\<Sum>i = 0..<s. \<Sum>j = 0..<s. \<Sum>k = 0..<s. bin_count s lo hi ps [i, j, k])"
    by (simp add: bin_count_Cons pb sum.distrib)
  also have "\<dots> = 1 + length ps"
    using Cons sum_indicator3[OF b] by simp
  finally show ?case by simp
qed

lemma point_bins_in_range:
  assumes "0 < s" "0 \<le> a" "a \<le> of_nat s" "0 \<le> b" "b \<le> of_nat s" "0 \<le> c" "c \<le> of_nat s"
  shows "\<exists>i<s. \<exists>j<s. \<exists>k<s. point_bins s 0 (of_nat s) [a, b, c] = Some [i, j, k]"
proof -
  obtain i where i: "i < s" "torch_bin s 0 (of_nat s) a = Some i"
    using torch_bin_in_range[OF assms(2,3,1)] by blast
  obtain j where j: "j < s" "torch_bin s 0 (of_nat s) b = Some j"
    using torch_bin_in_range[OF assms(4,5,1)] by blast
  obtain k where k: "k < s" "torch_bin s 0 (of_nat s) c = Some k"
    using torch_bin_in_range[OF assms(6,7,1)] by blast
  have "point_bins s 0 (of_nat s) [a, b, c] = Some [i, j, k]"
    by (simp add: point_bins_def i j k)
  with i(1) j(1) k(1) show ?thesis by blast
qed

lemma upt_3: "[0..<3] = [0, 1, 2]"
  by (simp add: upt_rec)

lemma permuted_points_in_range:
  assumes len: "length d = 3 * hw" and vals: "list_all (\<lambda>v. 0 \<le> v \<and> v \<le> of_nat s) d" and s: "0 < s"
  shows "list_all (\<lambda>p. \<exists>i<s. \<exists>j<s. \<exists>k<s. point_bins s 0 (of_nat s) p = Some [i, j, k])
           (map (\<lambda>n. map (\<lambda>c. d ! (c * hw + n)) [0..<3]) [0..<hw])"
proof -
  have r: "\<And>m. m < 3 * hw \<Longrightarrow> 0 \<le> d ! m \<and> d ! m \<le> of_nat s"
    using vals len by (simp add: list_all_length)
  have "\<And>n. n < hw \<Longrightarrow>
     \<exists>i<s. \<exists>j<s. \<exists>k<s. point_bins s 0 (of_nat s) (map (\<lambda>c. d ! (c * hw + n)) [0..<3]) = Some [i, j, k]"
  proof -
    fix n assume n: "n < hw"
    have a: "0 \<le> d ! n \<and> d ! n \<le> of_nat s" using r[of n] n by simp
    have b: "0 \<le> d ! (hw + n) \<and> d ! (hw + n) \<le> of_nat s" using r[of "hw + n"] n by simp
    have c: "0 \<le> d ! (2 * hw + n) \<and> d ! (2 * hw + n) \<le> of_nat s" using r[of "2 * hw + n"] n by simp
    show "\<exists>i<s. \<exists>j<s. \<exists>k<s. point_bins s 0 (of_nat s) (map (\<lambda>c. d ! (c * hw + n)) [0..<3]) = Some [i, j, k]"
      using point_bins_in_range[OF s, of "d ! n" "d ! (hw + n)" "d ! (2 * hw + n)"] a b c
      by (simp add: upt_3)
  qed
  then show ?thesis by (simp add: list_all_length)
qed

lemma cube_div_tab:
  "n \<noteq> 0 \<Longrightarrow>
   cube_div (map (\<lambda>i. map (\<lambda>j. map (\<lambda>k. f i j k) [0..<b]) [0..<b]) [0..<b]) n
   = Inr (map (\<lambda>i. map (\<lambda>j. map (\<lambda>k. f i j k / of_nat n) [0..<b]) [0..<b]) [0..<b])"
  by (simp add: cube_div_def comp_def)

lemma cube_shape_tab:
  "cube_shape b (map (\<lambda>i. map (\<lambda>j. map (\<lambda>k. f i j k) [0..<b]) [0..<b]) [0..<b])"
  by (simp add: cube_shape_def list_all_length)

lemma cube_nonneg_tab:
  "(\<And>i j k. 0 \<le> f i j k) \<Longrightarrow>
   cube_nonneg (map (\<lambda>i. map (\<lambda>j. map (\<lambda>k. f i j k) [0..<b]) [0..<b]) [0..<b])"
  by (simp add: cube_nonneg_def list_all_length)

lemma image_histogram_total:
  assumes ch: "p_channels x = 3" and px: "p_height x * p_width x \<noteq> 0"
    and len: "length ps = p_height x * p_width x"
    and pts: "list_all (\<lambda>p. \<exists>i<2 ^ cb. \<exists>j<2 ^ cb. \<exists>k<2 ^ cb.
                 point_bins (2 ^ cb) 0 (2 ^ cb) p = Some [i, j, k]) ps"
  shows "\<exists>h. image_histogram cb x ps = Inr h \<and> cube_shape (2 ^ cb) h \<and> cube_nonneg h \<and> cube_sum h = 1"
proof -
  let ?n = "p_height x * p_width x"
  let ?f = "\<lambda>i j k. (of_nat (bin_count (2 ^ cb) 0 (2 ^ cb) ps [i, j, k]) :: rat) / of_nat ?n"
  let ?h = "map (\<lambda>i. map (\<lambda>j. map (\<lambda>k. ?f i j k) [0..<2 ^ cb]) [0..<2 ^ cb]) [0..<2 ^ cb]"
  have eq: "image_histogram cb x ps = Inr ?h"
    using px by (simp add: image_histogram_def torch_histogramdd3_def ch cube_div_tab)
  have tot: "(\<Sum>i = 0..<2 ^ cb. \<Sum>j = 0..<2 ^ cb. \<Sum>k = 0..<2 ^ cb.
                 bin_count (2 ^ cb) 0 (2 ^ cb) ps [i, j, k]) = length ps"
    using bin_count_total[OF pts] .
  have "cube_sum ?h = (\<Sum>i = 0..<2 ^ cb. \<Sum>j = 0..<2 ^ cb. \<Sum>k = 0..<2 ^ cb. ?f i j k)"
    by (rule cube_sum_tab)
  also have "\<dots> = of_nat (\<Sum>i = 0..<2 ^ cb. \<Sum>j = 0..<2 ^ cb. \<Sum>k = 0..<2 ^ cb.
                 bin_count (2 ^ cb) 0 (2 ^ cb) ps [i, j, k]) / of_nat ?n"
    by (simp add: sum_divide_distrib)
  also have "\<dots> = 1" using px len by (simp add: tot)
  finally have s: "cube_sum ?h = 1" .
  have "cube_shape (2 ^ cb) ?h" by (rule cube_shape_tab)
  moreover have "cube_nonneg ?h" by (rule cube_nonneg_tab) simp
  ultimately show ?thesis using eq s by blast
qed

lemma histograms_loop_all:
  assumes "list_all (\<lambda>ps. \<exists>h. image_histogram cb x ps = Inr h \<and> P h) pss"
  shows "\<exists>hs. histograms_loop cb x pss = Inr hs \<and> length hs = length pss \<and> list_all P hs"
  using assms
proof (induction pss)
  case Nil
  show ?case by simp
next
  case (Cons ps pss)
  from Cons.prems obtain h where h: "image_histogram cb x ps = Inr h" "P h"
    by auto
  from Cons.prems have "list_all (\<lambda>ps. \<exists>h. image_histogram cb x ps = Inr h \<and> P h) pss"
    by simp
  from Cons.IH[OF this] obtain hs where hs: "histograms_loop cb x pss = Inr hs"
    "length hs = length pss" "list_all P hs" by blast
  from h hs show ?case by simp
qed

text \<open>
  Claim C3. For every batch of RGB images (three channels, at least one image, at least
  one pixel per image) whose channel values all lie in the binning range
  \<open>[0, 2 ^ color_bits]\<close>, \<^verbatim>\<open>HistogramExtractor\<close> returns one cube per image, each of
  shape \<open>S \<times> S \<times> S\<close> with \<open>S = 2 ^ color_bits\<close>, with no negative entry, and
  whose entries sum to 1 (exactly in rational arithmetic, hence within \<open>1e-4\<close>).
\<close>

theorem histogram_extractor_sums_to_one:
  assumes wf: "well_formed x" and rgb: "channels x = 3" and batch: "images x \<noteq> []"
    and pixels: "height x * width x \<noteq> 0"
    and rng: "values_within 0 (2 ^ color_bits) x"
  shows "\<exists>hs. HistogramExtractor color_bits x = Inr hs \<and> length hs = length (images x) \<and>
     list_all (\<lambda>h. cube_shape (2 ^ color_bits) h \<and> cube_nonneg h \<and> cube_sum h = 1 \<and>
                 \<bar>cube_sum h - 1\<bar> \<le> 1 / 10000) hs"
proof -
  let ?s = "2 ^ color_bits :: nat"
  let ?px = "Permute_0231 x"
  let ?P = "\<lambda>h. cube_shape ?s h \<and> cube_nonneg h \<and> cube_sum h = 1"
  have s0: "0 < ?s" by simp
  have each: "list_all (\<lambda>ps. \<exists>h. image_histogram color_bits ?px ps = Inr h \<and> ?P h) (p_images ?px)"
  proof -
    have "\<And>d. d \<in> set (images x) \<Longrightarrow>
        \<exists>h. image_histogram color_bits ?px
               (map (\<lambda>n. map (\<lambda>c. d ! (c * (height x * width x) + n)) [0..<channels x])
                    [0..<height x * width x]) = Inr h \<and> ?P h"
    proof -
      fix d assume d: "d \<in> set (images x)"
      have len: "length d = 3 * (height x * width x)"
        using wf d rgb by (simp add: well_formed_def list_all_iff)
      have vals: "list_all (\<lambda>v. 0 \<le> v \<and> v \<le> of_nat ?s) d"
        using rng d by (simp add: values_within_def list_all_iff)
      have pts: "list_all (\<lambda>p. \<exists>i<?s. \<exists>j<?s. \<exists>k<?s. point_bins ?s 0 (of_nat ?s) p = Some [i, j, k])
           (map (\<lambda>n. map (\<lambda>c. d ! (c * (height x * width x) + n)) [0..<3]) [0..<height x * width x])"
        by (rule permuted_points_in_range[OF len vals s0])
      show "\<exists>h. image_histogram color_bits ?px
               (map (\<lambda>n. map (\<lambda>c. d ! (c * (height x * width x) + n)) [0..<channels x])
                    [0..<height x * width x]) = Inr h \<and> ?P h"
        using image_histogram_total[of ?px _ color_bits] pts pixels rgb
        by (simp add: Permute_0231_def)
    qed
    then show ?thesis by (simp add: Permute_0231_def list_all_iff)
  qed
  from histograms_loop_all[OF each] obtain hs where
    hs: "histograms_loop color_bits ?px (p_images ?px) = Inr hs"
        "length hs = length (p_images ?px)" "list_all ?P hs" by blast
  have ne: "hs \<noteq> []" using hs(2) batch by (auto simp: Permute_0231_def)
  have "HistogramExtractor color_bits x = Inr hs"
    using hs(1) ne by (simp add: HistogramExtractor_def histogramdd_def torch_stack_def)
  moreover have "length hs = length (images x)" using hs(2) by (simp add: Permute_0231_def)
  moreover have "list_all (\<lambda>h. ?P h \<and> \<bar>cube_sum h - 1\<bar> \<le> 1 / 10000) hs"
    using hs(3) by (auto simp: list_all_iff)
  ultimately show ?thesis by (auto simp: list_all_iff)
qed

theorem histogram_extractor_sums_to_one_witness:
  "well_formed \<lparr>channels = 3, height = 1, width = 2, images = [[0, 1, 1/2, 2, 0, 3/2]]\<rparr> \<and>
   values_within 0 (2 ^ 1) \<lparr>channels = 3, height = 1, width = 2, images = [[0, 1, 1/2, 2, 0, 3/2]]\<rparr> \<and>
   (\<exists>hs. HistogramExtractor 1 \<lparr>channels = 3, height = 1, width = 2, images = [[0, 1, 1/2, 2, 0, 3/2]]\<rparr> = Inr hs \<and>
      length hs = 1 \<and> list_all (\<lambda>h. cube_shape 2 h \<and> cube_nonneg h \<and> cube_sum h = 1 \<and>
                 \<bar>cube_sum h - 1\<bar> \<le> 1 / 10000) hs)"
proof -
  let ?x = "\<lparr>channels = 3, height = 1, width = 2, images = [[0, 1, 1/2, 2, 0, 3/2 :: rat]]\<rparr>"
  have wf: "well_formed ?x" by (simp add: well_formed_def)
  have rng: "values_within 0 (2 ^ 1) ?x" by (simp add: values_within_def)
  have a: "channels ?x = 3" "images ?x \<noteq> []" "height ?x * width ?x \<noteq> 0" by simp_all
  from histogram_extractor_sums_to_one[OF wf a rng] wf rng show ?thesis by simp
qed

subsection \<open>Images of one colour\<close>

lemma permute_constant_image:
  "map (\<lambda>n. map (\<lambda>c. replicate (3 * hw) v ! (c * hw + n)) [0..<3]) [0..<hw]
   = replicate hw [v, v, v]"
proof -
  have "\<And>n. n < hw \<Longrightarrow> map (\<lambda>c. replicate (3 * hw) v ! (c * hw + n)) [0..<3] = [v, v, v]"
    by (simp add: upt_3)
  then show ?thesis
    by (simp add: list_eq_iff_nth_eq)
qed

lemma bin_count_replicate:
  "bin_count b lo hi (replicate n p) ix = (if point_bins b lo hi p = Some ix then n else 0)"
  by (simp add: bin_count_def)

lemma constant_image_histogram:
  assumes "h * w \<noteq> 0"
  shows "HistogramExtractor cb \<lparr>channels = 3, height = h, width = w, images = [replicate (3 * (h * w)) v]\<rparr>
    = Inr [map (\<lambda>i. map (\<lambda>j. map (\<lambda>k.
               if point_bins (2 ^ cb) 0 (2 ^ cb) [v, v, v] = Some [i, j, k] then 1 else 0)
             [0..<2 ^ cb]) [0..<2 ^ cb]) [0..<2 ^ cb]]"
proof -
  have "image_histogram cb \<lparr>p_height = h, p_width = w, p_channels = 3, p_images = [replicate (h * w) [v, v, v]]\<rparr>
          (replicate (h * w) [v, v, v])
        = Inr (map (\<lambda>i. map (\<lambda>j. map (\<lambda>k.
               if point_bins (2 ^ cb) 0 (2 ^ cb) [v, v, v] = Some [i, j, k] then 1 else 0)
             [0..<2 ^ cb]) [0..<2 ^ cb]) [0..<2 ^ cb])"
    using assms
    by (simp add: image_histogram_def torch_histogramdd3_def cube_div_tab bin_count_replicate)
  then show ?thesis
    by (simp add: HistogramExtractor_def histogramdd_def Permute_0231_def torch_stack_def
        permute_constant_image)
qed

lemma bins_of_one: "point_bins (2 ^ 3) 0 (2 ^ 3) [1, 1, 1] = Some [1, 1, 1]"
  by (simp add: point_bins_def torch_bin_def)

lemma bins_of_zero: "point_bins (2 ^ cb) 0 (2 ^ cb) [0, 0, 0] = Some [0, 0, 0]"
  by (simp add: point_bins_def torch_bin_def)

lemma black_image_lands_in_lowest_bin:
  assumes "h * w \<noteq> 0"
  shows "\<exists>c. HistogramExtractor cb \<lparr>channels = 3, height = h, width = w,
                               images = [replicate (3 * (h * w)) 0]\<rparr> = Inr [c]
       \<and> c ! 0 ! 0 ! 0 = 1"
  unfolding constant_image_histogram[OF assms] bins_of_zero
  by simp

lemma bins_of_top: "point_bins (2 ^ cb) 0 (2 ^ cb) [2 ^ cb, 2 ^ cb, 2 ^ cb] = Some [2 ^ cb - 1, 2 ^ cb - 1, 2 ^ cb - 1]"
  by (simp add: point_bins_def torch_bin_def)

lemma top_of_binning_range_lands_in_highest_bin:
  assumes "h * w \<noteq> 0"
  shows "\<exists>c. HistogramExtractor cb \<lparr>channels = 3, height = h, width = w,
                               images = [replicate (3 * (h * w)) (2 ^ cb)]\<rparr> = Inr [c]
       \<and> c ! (2 ^ cb - 1) ! (2 ^ cb - 1) ! (2 ^ cb - 1) = 1"
  unfolding constant_image_histogram[OF assms] bins_of_top
  by simp

text \<open>
  Claim C6, at the input of \<^verbatim>\<open>test_histogram_extractor\<close>: with \<open>color_bits = 3\<close> an
  image whose every channel value is 1, the maximum of the normalised range \<open>[0, 1]\<close>,
  has its whole mass in the bin \<open>(1, 1, 1)\<close> and none in the highest bin
  \<open>(7, 7, 7)\<close>: the extractor bins the values as they are, over \<open>[0, 8]\<close>. The
  all-zero image does land in the bin \<open>(0, 0, 0)\<close>, and an image whose values are
  \<open>2 ^ color_bits\<close>, the top of the binning range, lands in the highest bin (the two
  lemmas before the theorem).
\<close>

theorem white_image_lands_in_bin_one:
  "\<exists>h. HistogramExtractor 3 \<lparr>channels = 3, height = 224, width = 224,
                               images = [replicate (3 * (224 * 224)) 1]\<rparr> = Inr [h]
       \<and> h ! 1 ! 1 ! 1 = 1 \<and> h ! 7 ! 7 ! 7 = 0"
proof -
  have nz: "(224::nat) * 224 \<noteq> 0" by simp
  show ?thesis
    unfolding constant_image_histogram[OF nz] bins_of_one
    by simp
qed

subsection \<open>Properties of compute\_histogram\_embedding\<close>

lemma broadcast_rev_same: "broadcast_rev xs xs = Some xs"
  by (induction xs) auto

lemma broadcast_shapes_same: "broadcast_shapes s s = Some s"
  by (simp add: broadcast_shapes_def broadcast_rev_same)

text \<open>
  Claim C4, the case of a supplied negative histogram: when the negative histogram has
  the shape of \<open>x\<close> and \<open>x\<close> has not exactly one element (every histogram of
  \<open>color_bits \<ge> 1\<close> has at least eight), \<^verbatim>\<open>if x == negative_histogram:\<close> asks for the
  truth value of a tensor of several elements, so the method ends with an error as soon
  as the encoder has returned the conditional embedding: it never returns the
  concatenation of the two embeddings.
\<close>

theorem negative_histogram_supplied_raises:
  assumes "shape y = shape x" and "numel x \<noteq> 1"
  shows "compute_histogram_embedding self x (Some y)
         = (case self x of Inl m \<Rightarrow> Inl (LayerError m) | Inr c \<Rightarrow> Inl AmbiguousTruthValue)"
  using assms
  by (simp add: compute_histogram_embedding_def encode_def eq_truth_def tensor_eq_truth_def
      broadcast_shapes_same numel_def split: sum.splits)

theorem negative_histogram_supplied_raises_witness:
  "compute_histogram_embedding (\<lambda>t. Inr t)
      \<lparr>shape = [1, 2, 2, 2], data = [1/2, 0, 0, 0, 0, 0, 0, 1/2]\<rparr>
      (Some \<lparr>shape = [1, 2, 2, 2], data = [1/8, 1/8, 1/8, 1/8, 1/8, 1/8, 1/8, 1/8]\<rparr>)
   = Inl AmbiguousTruthValue"
  using negative_histogram_supplied_raises[of
      "\<lparr>shape = [1, 2, 2, 2], data = [1/8, 1/8, 1/8, 1/8, 1/8, 1/8, 1/8, 1/8]\<rparr>"
      "\<lparr>shape = [1, 2, 2, 2], data = [1/2, 0, 0, 0, 0, 0, 0, 1/2]\<rparr>" "\<lambda>t. Inr t"]
  by (simp add: numel_def)

text \<open>
  Claim C7. The method ends with the error "Cannot compute histogram embedding for
  empty tensor" exactly when no negative histogram is supplied, the input has zero
  elements and the encoder returned an embedding for it; with no negative histogram and
  an input of zero elements it always ends with an error; and for an input that is not
  empty it never ends with this error.
\<close>

theorem empty_tensor_guard:
  "(compute_histogram_embedding self x negative_histogram = Inl EmptyTensorValueError)
     = (negative_histogram = None \<and> numel x = 0 \<and> (\<exists>c. self x = Inr c))
   \<and> (negative_histogram = None \<and> numel x = 0 \<longrightarrow>
        (\<exists>e. compute_histogram_embedding self x negative_histogram = Inl e))
   \<and> (numel x \<noteq> 0 \<longrightarrow>
        compute_histogram_embedding self x negative_histogram \<noteq> Inl EmptyTensorValueError)"
proof -
  have never: "\<And>a b. cat0 a b \<noteq> Inl EmptyTensorValueError"
    by (auto simp: cat0_def split: list.splits)
  have enc: "\<And>t. encode self t \<noteq> Inl EmptyTensorValueError"
    by (auto simp: encode_def split: sum.splits)
  have teq: "\<And>y. tensor_eq_truth x y \<noteq> Inl EmptyTensorValueError"
    by (auto simp: tensor_eq_truth_def split: option.splits)
  have iff: "(compute_histogram_embedding self x negative_histogram = Inl EmptyTensorValueError)
     = (negative_histogram = None \<and> numel x = 0 \<and> (\<exists>c. self x = Inr c))"
  proof (cases negative_histogram)
    case None
    show ?thesis
    proof (cases "self x")
      case (Inl m)
      with None show ?thesis by (simp add: compute_histogram_embedding_def encode_def)
    next
      case (Inr c)
      with None show ?thesis
        using never enc
        by (auto simp: compute_histogram_embedding_def eq_truth_def split: sum.splits)
           (simp add: encode_def)
    qed
  next
    case (Some y)
    then show ?thesis
      using never enc teq
      by (auto simp: compute_histogram_embedding_def eq_truth_def split: sum.splits)
  qed
  have raises: "negative_histogram = None \<and> numel x = 0 \<longrightarrow>
        (\<exists>e. compute_histogram_embedding self x negative_histogram = Inl e)"
    by (auto simp: compute_histogram_embedding_def eq_truth_def encode_def split: sum.splits)
  from iff raises show ?thesis by simp
qed

theorem empty_tensor_guard_witness:
  "compute_histogram_embedding (\<lambda>t. Inr t) \<lparr>shape = [0, 2, 2, 2], data = []\<rparr> None
     = Inl EmptyTensorValueError
   \<and> numel \<lparr>shape = [1, 2, 2, 2], data = [1/2, 0, 0, 0, 0, 0, 0, 1/2]\<rparr> \<noteq> 0
   \<and> compute_histogram_embedding (\<lambda>t. Inr t)
        \<lparr>shape = [1, 2, 2, 2], data = [1/2, 0, 0, 0, 0, 0, 0, 1/2]\<rparr> None
     \<noteq> Inl EmptyTensorValueError"
  using empty_tensor_guard[of "\<lambda>t. Inr t" "\<lparr>shape = [0, 2, 2, 2], data = []\<rparr>" None]
    empty_tensor_guard[of "\<lambda>t. Inr t"
       "\<lparr>shape = [1, 2, 2, 2], data = [1/2, 0, 0, 0, 0, 0, 0, 1/2]\<rparr>" None]
  by (simp add: numel_def)

lemma uniform_negative_data:
  "data (uniform_negative x) = replicate (length (data x)) (1 / of_nat (numel x))"
  by (simp add: uniform_negative_def zeros_like_def map_replicate_const)

lemma uniform_negative_shape: "shape (uniform_negative x) = shape x"
  by (simp add: uniform_negative_def zeros_like_def)

lemma batch_element_uniform:
  assumes ok: "tensor_ok x" and sh: "shape x = b # rest" and i: "i < b"
  shows "batch_element (uniform_negative x) i
         = replicate (prod_list rest) (1 / of_nat (numel x))"
proof -
  let ?m = "prod_list rest"
  have len: "length (data x) = b * ?m"
    using ok sh by (simp add: tensor_ok_def numel_def)
  have "i * ?m + ?m \<le> b * ?m"
  proof -
    have "Suc i \<le> b" using i by simp
    then have "Suc i * ?m \<le> b * ?m" by (rule mult_le_mono1)
    then show ?thesis by (simp add: add.commute)
  qed
  then have "min ?m (b * ?m - i * ?m) = ?m" by simp
  then show ?thesis
    by (simp add: batch_element_def uniform_negative_shape sh uniform_negative_data len)
qed

text \<open>
  Claim C9. With no negative histogram and an input that is not empty, the method
  encodes the fallback tensor in place of the negative histogram; the fallback has the
  shape of \<open>x\<close> and every entry of it is \<open>1 / numel x\<close>, the batch dimension
  counted. For a batch of \<open>b\<close> histograms of \<open>s * s * s\<close> bins each batch element of
  the fallback has total mass \<open>1 / b\<close>, which is 1 only when \<open>b = 1\<close>.
\<close>

theorem uniform_fallback_mass:
  assumes ne: "numel x \<noteq> 0"
  shows "compute_histogram_embedding self x None
           = (case encode self x of
                Inl e \<Rightarrow> Inl e
              | Inr conditional_embedding \<Rightarrow>
                  (case encode self (uniform_negative x) of
                     Inl e \<Rightarrow> Inl e
                   | Inr negative_embedding \<Rightarrow> cat0 negative_embedding conditional_embedding))
       \<and> shape (uniform_negative x) = shape x
       \<and> list_all (\<lambda>v. v = 1 / of_nat (numel x)) (data (uniform_negative x))
       \<and> (tensor_ok x \<and> shape x = [b, s, s, s] \<longrightarrow>
            (\<forall>i<b. sum_list (batch_element (uniform_negative x) i) = 1 / of_nat b)
            \<and> ((\<forall>i<b. sum_list (batch_element (uniform_negative x) i) = 1) = (b = 1)))"
proof -
  have a: "compute_histogram_embedding self x None
           = (case encode self x of
                Inl e \<Rightarrow> Inl e
              | Inr conditional_embedding \<Rightarrow>
                  (case encode self (uniform_negative x) of
                     Inl e \<Rightarrow> Inl e
                   | Inr negative_embedding \<Rightarrow> cat0 negative_embedding conditional_embedding))"
    using ne by (simp add: compute_histogram_embedding_def eq_truth_def split: sum.splits)
  have c: "list_all (\<lambda>v. v = 1 / of_nat (numel x)) (data (uniform_negative x))"
    by (simp add: uniform_negative_data list_all_length)
  have d: "tensor_ok x \<and> shape x = [b, s, s, s] \<longrightarrow>
            (\<forall>i<b. sum_list (batch_element (uniform_negative x) i) = 1 / of_nat b)
            \<and> ((\<forall>i<b. sum_list (batch_element (uniform_negative x) i) = 1) = (b = 1))"
  proof
    assume h: "tensor_ok x \<and> shape x = [b, s, s, s]"
    then have n: "numel x = b * (s * s * s)" by (simp add: numel_def mult.assoc)
    with ne have b0: "b \<noteq> 0" and s0: "s * s * s \<noteq> 0" by auto
    have each: "\<And>i. i < b \<Longrightarrow> sum_list (batch_element (uniform_negative x) i) = 1 / of_nat b"
    proof -
      fix i assume "i < b"
      with h have "batch_element (uniform_negative x) i
            = replicate (prod_list [s, s, s]) (1 / of_nat (numel x))"
        using batch_element_uniform[of x b "[s, s, s]" i] by simp
      then have "sum_list (batch_element (uniform_negative x) i)
            = of_nat (s * s * s) * (1 / of_nat (b * (s * s * s)))"
        by (simp add: sum_list_replicate n mult.assoc)
      also have "\<dots> = 1 / of_nat b" using s0 b0 by (simp add: field_simps)
      finally show "sum_list (batch_element (uniform_negative x) i) = 1 / of_nat b" .
    qed
    have iff: "(\<forall>i<b. sum_list (batch_element (uniform_negative x) i) = 1) = (b = 1)"
    proof
      assume all: "\<forall>i<b. sum_list (batch_element (uniform_negative x) i) = 1"
      from b0 have "0 < b" by simp
      with all each[of 0] have "1 / (of_nat b :: rat) = 1" by simp
      then have "(of_nat b :: rat) = 1" using b0 by (simp add: field_simps)
      then show "b = 1" by simp
    next
      assume "b = 1"
      with each show "\<forall>i<b. sum_list (batch_element (uniform_negative x) i) = 1" by simp
    qed
    from each iff show "(\<forall>i<b. sum_list (batch_element (uniform_negative x) i) = 1 / of_nat b)
            \<and> ((\<forall>i<b. sum_list (batch_element (uniform_negative x) i) = 1) = (b = 1))"
      by simp
  qed
  from a c d uniform_negative_shape[of x] show ?thesis by blast
qed

theorem uniform_fallback_mass_witness:
  "numel \<lparr>shape = [2, 2, 2, 2], data = replicate 16 (1/8)\<rparr> \<noteq> 0
   \<and> tensor_ok \<lparr>shape = [2, 2, 2, 2], data = replicate 16 (1/8)\<rparr>
   \<and> list_all (\<lambda>v. v = 1 / 16)
        (data (uniform_negative \<lparr>shape = [2, 2, 2, 2], data = replicate 16 (1/8)\<rparr>))
   \<and> sum_list (batch_element (uniform_negative \<lparr>shape = [2, 2, 2, 2], data = replicate 16 (1/8)\<rparr>) 0) = 1 / 2
   \<and> sum_list (batch_element (uniform_negative \<lparr>shape = [2, 2, 2, 2], data = replicate 16 (1/8)\<rparr>) 1) = 1 / 2"
proof -
  let ?x = "\<lparr>shape = [2, 2, 2, 2], data = replicate 16 (1/8 :: rat)\<rparr>"
  have ne: "numel ?x \<noteq> 0" by (simp add: numel_def)
  have n16: "numel ?x = 16" by (simp add: numel_def)
  have ok: "tensor_ok ?x" by (simp add: tensor_ok_def numel_def)
  note t = uniform_fallback_mass[OF ne, of "\<lambda>t. Inr t" 2 2]
  from t have u: "list_all (\<lambda>v. v = 1 / of_nat (numel ?x)) (data (uniform_negative ?x))"
    by blast
  from t ok have all: "\<forall>i<2. sum_list (batch_element (uniform_negative ?x) i) = 1 / of_nat 2"
    by simp
  from all have "sum_list (batch_element (uniform_negative ?x) 0) = 1 / 2"
    and "sum_list (batch_element (uniform_negative ?x) 1) = 1 / 2" by simp_all
  with ne ok u show ?thesis by (simp add: n16)
qed

subsection \<open>The orchestrator and its sub-adapters\<close>

text \<open>
  A remark on the class \<^verbatim>\<open>HistogramCrossAttention\<close> of the file, which the constructor of
  the orchestrator does not instantiate: its two \<^verbatim>\<open>UseContext\<close> layers look up the key
  \<open>palette_embedding\<close>, which \<^verbatim>\<open>set_histogram_embedding\<close> does not write, so a branch of
  that class would not find the embedding.
\<close>

lemma histogram_class_reads_another_key:
  "HistogramCrossAttention_forward attn h (set_histogram_embedding ctx e)
      (fst (HistogramCrossAttention_new rng text_cross_attention scale h0)) q k v
   = Inl (MissingKey ''ip_adapter'' ''palette_embedding'')"
  by (simp add: HistogramCrossAttention_forward_def HistogramCrossAttention_new_def
      set_histogram_embedding_def set_context_def UseContext_def bind_err_def
      Let_def split_beta)

text \<open>
  Claim C8, on the code: the class \<^verbatim>\<open>HistogramExtractor\<close> binds no name
  \<open>images_to_histograms\<close>; the call of the trainer and of
  \<^verbatim>\<open>test_images_histogram_extractor\<close> finds no such attribute in the class.
\<close>

theorem images_to_histograms_is_not_an_attribute:
  "getattr_of HistogramExtractor_names [] ''images_to_histograms''
   = Inl (AttributeError ''images_to_histograms'')"
  by (simp add: getattr_of_def HistogramExtractor_names_def)

lemma instantiate_fields:
  "sa_class (fst (instantiate cls rng l scale h)) = cls"
  "sa_target (fst (instantiate cls rng l scale h)) = l"
  by (cases cls; simp add: instantiate_def CrossAttentionAdapter_new_def
      HistogramCrossAttentionAdapter_new_def Let_def split_beta)+

lemma build_sub_adapters_classes:
  "map sa_class (fst (build_sub_adapters rng scale ls h)) = replicate (length ls) CrossAttentionAdapter
   \<and> map sa_target (fst (build_sub_adapters rng scale ls h)) = ls"
proof (induction ls arbitrary: h)
  case Nil
  show ?case by simp
next
  case (Cons l ls)
  show ?case
    using Cons.IH[of "snd (instantiate CrossAttentionAdapter rng l scale h)"]
    by (simp add: split_beta Let_def instantiate_fields)
qed

lemma sub_adapters_of_constructor:
  "sub_adapters (fst (SD1HistogramAdapter_new rng target histogram_encoder scale h))
   = fst (build_sub_adapters rng scale
            (filter (\<lambda>attn. layer_type attn \<noteq> SelfAttention) (attention_layers target)) h)"
  by (simp add: SD1HistogramAdapter_new_def split_beta Let_def)

text \<open>
  On the small target, the one layer that is not a self-attention receives a sub-adapter
  of the class \<^verbatim>\<open>CrossAttentionAdapter\<close>, the class that line 304 calls: the sub-adapters
  are not one \<^verbatim>\<open>HistogramCrossAttentionAdapter\<close> for each such layer.
\<close>

theorem sub_adapters_are_not_histogram_adapters:
  "map sa_class (sub_adapters (fst (SD1HistogramAdapter_new (\<lambda>a i. 1 / 2) example_unet
                                      example_encoder 1 example_heap)))
     = [CrossAttentionAdapter]
   \<and> \<not> (map sa_class (sub_adapters (fst (SD1HistogramAdapter_new (\<lambda>a i. 1 / 2) example_unet
                                             example_encoder 1 example_heap)))
          = replicate (length (filter (\<lambda>attn. layer_type attn \<noteq> SelfAttention)
                                 (attention_layers example_unet)))
              HistogramCrossAttentionAdapter
        \<and> map sa_target (sub_adapters (fst (SD1HistogramAdapter_new (\<lambda>a i. 1 / 2) example_unet
                                               example_encoder 1 example_heap)))
          = filter (\<lambda>attn. layer_type attn \<noteq> SelfAttention) (attention_layers example_unet))"
proof -
  have f: "filter (\<lambda>attn. layer_type attn \<noteq> SelfAttention) (attention_layers example_unet)
           = [example_cross_attention]"
    by (simp add: example_unet_def example_self_attention_def example_cross_attention_def)
  have c: "map sa_class (sub_adapters (fst (SD1HistogramAdapter_new (\<lambda>a i. 1 / 2) example_unet
                                              example_encoder 1 example_heap)))
           = [CrossAttentionAdapter]"
    using build_sub_adapters_classes[of "\<lambda>a i. 1 / 2" 1 "[example_cross_attention]" example_heap]
    by (simp only: sub_adapters_of_constructor f) simp
  show ?thesis
    by (simp only: c f) simp
qed

text \<open>
  Claim C5, with the class that the constructor calls (lines 303 to 306): for every
  target, the sub-adapters are one \<^verbatim>\<open>CrossAttentionAdapter\<close>, the adapter of the
  image-prompt module imported at line 11, for each attention layer of the target whose
  class is not \<^verbatim>\<open>fl.SelfAttention\<close>, in the order of the layers, and no sub-adapter has a
  layer of the class \<^verbatim>\<open>fl.SelfAttention\<close> as its target. The class
  \<^verbatim>\<open>HistogramCrossAttentionAdapter\<close> of the file is not the one instantiated.
\<close>

theorem constructor_builds_image_prompt_adapters:
  "map sa_class (sub_adapters (fst (SD1HistogramAdapter_new rng target histogram_encoder scale h)))
     = replicate (length (filter (\<lambda>attn. layer_type attn \<noteq> SelfAttention) (attention_layers target)))
         CrossAttentionAdapter
   \<and> map sa_target (sub_adapters (fst (SD1HistogramAdapter_new rng target histogram_encoder scale h)))
     = filter (\<lambda>attn. layer_type attn \<noteq> SelfAttention) (attention_layers target)
   \<and> list_all (\<lambda>s. layer_type (sa_target s) \<noteq> SelfAttention)
       (sub_adapters (fst (SD1HistogramAdapter_new rng target histogram_encoder scale h)))"
proof -
  let ?ls = "filter (\<lambda>attn. layer_type attn \<noteq> SelfAttention) (attention_layers target)"
  let ?subs = "sub_adapters (fst (SD1HistogramAdapter_new rng target histogram_encoder scale h))"
  have c: "map sa_class ?subs = replicate (length ?ls) CrossAttentionAdapter"
    and t: "map sa_target ?subs = ?ls"
    using build_sub_adapters_classes[of rng scale ?ls h]
    by (simp_all only: sub_adapters_of_constructor)
  have "list_all (\<lambda>l. layer_type l \<noteq> SelfAttention) (map sa_target ?subs)"
    by (simp only: t) (simp add: list_all_iff)
  then have n: "list_all (\<lambda>s. layer_type (sa_target s) \<noteq> SelfAttention) ?subs"
    by (simp add: list_all_iff)
  from c t n show ?thesis by blast
qed

subsection \<open>Construction and zero initialisation in the store\<close>

lemma alloc_facts:
  "fst (alloc v h) = next_addr h"
  "next_addr (snd (alloc v h)) = Suc (next_addr h)"
  "cells (snd (alloc v h)) (next_addr h) = v"
  "p \<noteq> next_addr h \<Longrightarrow> cells (snd (alloc v h)) p = cells h p"
  by (simp_all add: alloc_def)

lemma Linear_new_facts:
  "in_features (fst (Linear_new rng i out b h)) = i"
  "out_features (fst (Linear_new rng i out b h)) = out"
  "weight (fst (Linear_new rng i out b h)) = next_addr h"
  "bias (fst (Linear_new rng i out b h)) = (if b then Some (Suc (next_addr h)) else None)"
  "next_addr (snd (Linear_new rng i out b h)) = (if b then Suc (Suc (next_addr h)) else Suc (next_addr h))"
  "a = next_addr h \<Longrightarrow> length (cells (snd (Linear_new rng i out b h)) a) = out * i"
  "p < next_addr h \<Longrightarrow> cells (snd (Linear_new rng i out b h)) p = cells h p"
  by (simp_all add: Linear_new_def alloc_def Let_def split_beta)

text \<open>What one constructed sub-adapter holds, between the store before and the store after.\<close>

lemma instantiate_facts:
  fixes rng l scale h
  defines "s \<equiv> fst (instantiate CrossAttentionAdapter rng l scale h)"
    and "h' \<equiv> snd (instantiate CrossAttentionAdapter rng l scale h)"
  shows "sa_clone s = l"
    and "key_use_context (sa_branch s) = \<lparr>uc_context = ''ip_adapter'', uc_key = ''clip_image_embedding''\<rparr>"
    and "value_use_context (sa_branch s) = \<lparr>uc_context = ''ip_adapter'', uc_key = ''clip_image_embedding''\<rparr>"
    and "in_features (key_linear (sa_branch s)) = 4"
    and "in_features (value_linear (sa_branch s)) = 4"
    and "out_features (key_linear (sa_branch s)) = inner_dim l"
    and "out_features (value_linear (sa_branch s)) = inner_dim l"
    and "bias (key_linear (sa_branch s)) = None \<longleftrightarrow> \<not> use_bias l"
    and "bias (value_linear (sa_branch s)) = None \<longleftrightarrow> \<not> use_bias l"
    and "next_addr h \<le> weight (key_linear (sa_branch s))"
    and "weight (key_linear (sa_branch s)) < next_addr h'"
    and "next_addr h \<le> weight (value_linear (sa_branch s))"
    and "weight (value_linear (sa_branch s)) < next_addr h'"
    and "length (cells h' (weight (key_linear (sa_branch s)))) = inner_dim l * 4"
    and "length (cells h' (weight (value_linear (sa_branch s)))) = inner_dim l * 4"
    and "next_addr h \<le> next_addr h'"
    and "\<And>p. p < next_addr h \<Longrightarrow> cells h' p = cells h p"
  unfolding s_def h'_def
  by (simp_all add: instantiate_def CrossAttentionAdapter_new_def structural_copy_def Let_def split_beta
      Linear_new_facts)

lemma built_between_new:
  "built_between h (snd (instantiate CrossAttentionAdapter rng l scale h))
     (fst (instantiate CrossAttentionAdapter rng l scale h))"
  unfolding built_between_def
  by (simp add: instantiate_facts instantiate_fields)

lemma built_between_extend:
  assumes "built_between h1 h2 s" and "next_addr h0 \<le> next_addr h1"
    and "next_addr h2 \<le> next_addr h3"
    and "\<And>p. p < next_addr h2 \<Longrightarrow> cells h3 p = cells h2 p"
  shows "built_between h0 h3 s"
  using assms unfolding built_between_def by auto

lemma build_sub_adapters_invariant:
  "next_addr h \<le> next_addr (snd (build_sub_adapters rng scale ls h))
   \<and> (\<forall>p < next_addr h. cells (snd (build_sub_adapters rng scale ls h)) p = cells h p)
   \<and> (\<forall>s \<in> set (fst (build_sub_adapters rng scale ls h)).
         built_between h (snd (build_sub_adapters rng scale ls h)) s)"
proof (induction ls arbitrary: h)
  case Nil
  show ?case by simp
next
  case (Cons l ls)
  let ?s = "fst (instantiate CrossAttentionAdapter rng l scale h)"
  let ?h1 = "snd (instantiate CrossAttentionAdapter rng l scale h)"
  let ?ss = "fst (build_sub_adapters rng scale ls ?h1)"
  let ?h2 = "snd (build_sub_adapters rng scale ls ?h1)"
  have eq: "build_sub_adapters rng scale (l # ls) h = (?s # ?ss, ?h2)"
    by (simp add: split_beta Let_def)
  note ih = Cons.IH[of ?h1]
  have le1: "next_addr h \<le> next_addr ?h1"
    by (rule instantiate_facts)
  have keep1: "\<And>p. p < next_addr h \<Longrightarrow> cells ?h1 p = cells h p"
    by (rule instantiate_facts)
  have le2: "next_addr ?h1 \<le> next_addr ?h2" using ih by blast
  have keep2: "\<And>p. p < next_addr ?h1 \<Longrightarrow> cells ?h2 p = cells ?h1 p" using ih by blast
  have a: "next_addr h \<le> next_addr ?h2" using le1 le2 by simp
  have b: "\<forall>p < next_addr h. cells ?h2 p = cells h p"
    using keep1 keep2 le1 by auto
  have s: "built_between h ?h2 ?s"
    by (rule built_between_extend[OF built_between_new _ le2 keep2]) simp
  have ss: "\<forall>s' \<in> set ?ss. built_between h ?h2 s'"
  proof
    fix s' assume "s' \<in> set ?ss"
    with ih have "built_between ?h1 ?h2 s'" by blast
    then show "built_between h ?h2 s'"
      by (rule built_between_extend[OF _ le1]) simp_all
  qed
  show ?case unfolding eq using a b s ss by simp
qed

lemma zeros_inplace_cells:
  "cells (zeros_inplace w h) p = (if p = w then map (\<lambda>_. 0) (cells h w) else cells h p)"
  by (simp add: zeros_inplace_def)

lemma fold_zeros_cells:
  "cells (fold zeros_inplace ws h) p
   = (if p \<in> set ws then map (\<lambda>_. 0) (cells h p) else cells h p)"
proof (induction ws arbitrary: h)
  case Nil
  show ?case by simp
next
  case (Cons w ws)
  show ?case
    by (simp add: Cons.IH zeros_inplace_cells)
qed

lemma fold_zeros_next_addr: "next_addr (fold zeros_inplace ws h) = next_addr h"
proof (induction ws arbitrary: h)
  case Nil
  show ?case by simp
next
  case (Cons w ws)
  have "next_addr (zeros_inplace w h) = next_addr h" by (simp add: zeros_inplace_def)
  then show ?case by (simp add: Cons.IH)
qed

lemma adapter_construction:
  "sub_adapters (fst (SD1HistogramAdapter_new rng target enc scale h))
     = fst (build_sub_adapters rng scale
              (filter (\<lambda>attn. layer_type attn \<noteq> SelfAttention) (attention_layers target)) h)"
  "snd (SD1HistogramAdapter_new rng target enc scale h)
     = snd (build_sub_adapters rng scale
              (filter (\<lambda>attn. layer_type attn \<noteq> SelfAttention) (attention_layers target)) h)"
  "ad_histogram_encoder (fst (SD1HistogramAdapter_new rng target enc scale h)) = [enc]"
  "ad_target (fst (SD1HistogramAdapter_new rng target enc scale h)) = target"
  by (simp_all add: SD1HistogramAdapter_new_def split_beta Let_def)

lemma adapter_sub_adapters_built:
  assumes "s \<in> set (sub_adapters (fst (SD1HistogramAdapter_new rng target enc scale h)))"
  shows "built_between h (snd (SD1HistogramAdapter_new rng target enc scale h)) s"
  using assms build_sub_adapters_invariant[of h rng scale
      "filter (\<lambda>attn. layer_type attn \<noteq> SelfAttention) (attention_layers target)"]
  by (simp add: adapter_construction)

lemma adapter_store_kept:
  assumes "p < next_addr h"
  shows "cells (snd (SD1HistogramAdapter_new rng target enc scale h)) p = cells h p"
  using assms build_sub_adapters_invariant[of h rng scale
      "filter (\<lambda>attn. layer_type attn \<noteq> SelfAttention) (attention_layers target)"]
  by (simp add: adapter_construction)

lemma weights_fresh:
  assumes "w \<in> set (weights (fst (SD1HistogramAdapter_new rng target enc scale h)))"
  shows "next_addr h \<le> w \<and> w < next_addr (snd (SD1HistogramAdapter_new rng target enc scale h))"
proof -
  from assms obtain s where s: "s \<in> set (sub_adapters (fst (SD1HistogramAdapter_new rng target enc scale h)))"
    and w: "w \<in> set (adapter_weights s)"
    by (auto simp: weights_def)
  from adapter_sub_adapters_built[OF s] w show ?thesis
    by (auto simp: built_between_def adapter_weights_def)
qed

lemma zero_init_cells:
  "cells (zero_init a h) p = (if p \<in> set (weights a) then map (\<lambda>_. 0) (cells h p) else cells h p)"
  by (simp add: zero_init_def fold_zeros_cells)

text \<open>
  Claim C10. When the parameters of the target network and of the encoder are tensors of
  the store before the adapter is constructed, \<^verbatim>\<open>weights\<close> is the list of the key and
  value projection weights of the sub-adapters, all of them at addresses handed out
  during the construction; no parameter of the network or of the encoder is among them;
  \<^verbatim>\<open>zero_init\<close> leaves every tensor that is not in \<^verbatim>\<open>weights\<close> as it is, so the
  parameters of the network and of the encoder keep the values they had before the
  construction; and the encoder is held in a list of one element.
\<close>

theorem zero_init_frame:
  assumes existing: "list_all (\<lambda>p. p < next_addr h)
                       (unet_params target @ encoder_params histogram_encoder)"
  shows "weights (fst (SD1HistogramAdapter_new rng target histogram_encoder scale h))
           = concat (map (\<lambda>s. [weight (key_linear (sa_branch s)), weight (value_linear (sa_branch s))])
                      (sub_adapters (fst (SD1HistogramAdapter_new rng target histogram_encoder scale h))))
       \<and> list_all (\<lambda>w. next_addr h \<le> w
                        \<and> w < next_addr (snd (SD1HistogramAdapter_new rng target histogram_encoder scale h)))
           (weights (fst (SD1HistogramAdapter_new rng target histogram_encoder scale h)))
       \<and> list_all (\<lambda>p. p \<notin> set (weights (fst (SD1HistogramAdapter_new rng target histogram_encoder scale h))))
           (unet_params target @ encoder_params histogram_encoder)
       \<and> (\<forall>p. p \<notin> set (weights (fst (SD1HistogramAdapter_new rng target histogram_encoder scale h)))
             \<longrightarrow> cells (zero_init (fst (SD1HistogramAdapter_new rng target histogram_encoder scale h))
                           (snd (SD1HistogramAdapter_new rng target histogram_encoder scale h))) p
                 = cells (snd (SD1HistogramAdapter_new rng target histogram_encoder scale h)) p)
       \<and> list_all (\<lambda>p. cells (zero_init (fst (SD1HistogramAdapter_new rng target histogram_encoder scale h))
                                  (snd (SD1HistogramAdapter_new rng target histogram_encoder scale h))) p
                        = cells h p)
           (unet_params target @ encoder_params histogram_encoder)
       \<and> ad_histogram_encoder (fst (SD1HistogramAdapter_new rng target histogram_encoder scale h))
           = [histogram_encoder]"
proof -
  let ?a = "fst (SD1HistogramAdapter_new rng target histogram_encoder scale h)"
  let ?h1 = "snd (SD1HistogramAdapter_new rng target histogram_encoder scale h)"
  let ?old = "unet_params target @ encoder_params histogram_encoder"
  have c1: "weights ?a = concat (map (\<lambda>s. [weight (key_linear (sa_branch s)),
                                         weight (value_linear (sa_branch s))]) (sub_adapters ?a))"
  proof -
    have "adapter_weights = (\<lambda>s. [weight (key_linear (sa_branch s)), weight (value_linear (sa_branch s))])"
      by (rule ext) (simp add: adapter_weights_def)
    then show ?thesis by (simp add: weights_def)
  qed
  have c2: "list_all (\<lambda>w. next_addr h \<le> w \<and> w < next_addr ?h1) (weights ?a)"
    using weights_fresh[of _ rng target histogram_encoder scale h]
    by (simp add: list_all_iff)
  have old: "\<And>p. p \<in> set ?old \<Longrightarrow> p < next_addr h"
    using existing by (simp add: list_all_iff)
  have disj: "\<And>p. p \<in> set ?old \<Longrightarrow> p \<notin> set (weights ?a)"
  proof
    fix p assume "p \<in> set ?old" and "p \<in> set (weights ?a)"
    with old[of p] weights_fresh[of p rng target histogram_encoder scale h]
    show False by simp
  qed
  have c3: "list_all (\<lambda>p. p \<notin> set (weights ?a)) ?old"
    using disj by (simp add: list_all_iff)
  have c4: "\<forall>p. p \<notin> set (weights ?a) \<longrightarrow> cells (zero_init ?a ?h1) p = cells ?h1 p"
    by (simp add: zero_init_cells)
  have c5: "list_all (\<lambda>p. cells (zero_init ?a ?h1) p = cells h p) ?old"
  proof -
    have "\<And>p. p \<in> set ?old \<Longrightarrow> cells (zero_init ?a ?h1) p = cells h p"
      using disj old by (simp add: zero_init_cells adapter_store_kept)
    then show ?thesis by (simp add: list_all_iff)
  qed
  have c6: "ad_histogram_encoder ?a = [histogram_encoder]"
    by (simp add: adapter_construction)
  from c1 c2 c3 c4 c5 c6 show ?thesis by blast
qed

lemma example_existing:
  "list_all (\<lambda>p. p < next_addr example_heap)
     (unet_params example_unet @ encoder_params example_encoder)"
  by (simp add: example_heap_def example_unet_def example_encoder_def unet_params_def
      layer_params_def linear_params_def example_self_attention_def example_cross_attention_def)

theorem zero_init_frame_witness:
  "list_all (\<lambda>p. p < next_addr example_heap)
     (unet_params example_unet @ encoder_params example_encoder)
   \<and> list_all (\<lambda>p. cells (zero_init (fst (SD1HistogramAdapter_new (\<lambda>a i. 1 / 2) example_unet example_encoder 1 example_heap))
                                  (snd (SD1HistogramAdapter_new (\<lambda>a i. 1 / 2) example_unet example_encoder 1 example_heap))) p
                        = cells example_heap p)
           (unet_params example_unet @ encoder_params example_encoder)
   \<and> list_all (\<lambda>p. p \<notin> set (weights (fst (SD1HistogramAdapter_new (\<lambda>a i. 1 / 2) example_unet example_encoder 1 example_heap))))
           (unet_params example_unet @ encoder_params example_encoder)
   \<and> ad_histogram_encoder (fst (SD1HistogramAdapter_new (\<lambda>a i. 1 / 2) example_unet example_encoder 1 example_heap))
           = [example_encoder]"
  using zero_init_frame[OF example_existing, of "\<lambda>a i. 1 / 2" 1] example_existing
  by blast

lemma example_weights:
  "weights (fst (SD1HistogramAdapter_new (\<lambda>a i. 1 / 2) example_unet example_encoder 1 example_heap)) = [10, 11]"
  by (simp add: SD1HistogramAdapter_new_def example_unet_def example_self_attention_def
      example_cross_attention_def example_heap_def weights_def adapter_weights_def
      instantiate_def CrossAttentionAdapter_new_def structural_copy_def Linear_new_def alloc_def Let_def split_beta)

subsection \<open>The embedding in the context\<close>

lemma UseContext_after_set:
  "UseContext \<lparr>uc_context = ''ip_adapter'', uc_key = ''clip_image_embedding''\<rparr>
     (set_histogram_embedding ctx e) = Inr e"
  by (simp add: UseContext_def set_histogram_embedding_def set_context_def)

lemma example_adapter:
  "SD1HistogramAdapter_new (\<lambda>a i. 1 / 2) example_unet example_encoder 1 example_heap
   = (\<lparr>ad_target = example_unet, ad_histogram_encoder = [example_encoder],
       sub_adapters =
        [\<lparr>sa_class = CrossAttentionAdapter, sa_target = example_cross_attention,
          sa_clone = example_cross_attention,
          sa_branch =
            \<lparr>key_use_context = \<lparr>uc_context = ''ip_adapter'', uc_key = ''clip_image_embedding''\<rparr>,
             key_linear = \<lparr>in_features = 4, out_features = 2, weight = 10, bias = None\<rparr>,
             value_use_context = \<lparr>uc_context = ''ip_adapter'', uc_key = ''clip_image_embedding''\<rparr>,
             value_linear = \<lparr>in_features = 4, out_features = 2, weight = 11, bias = None\<rparr>,
             hca_num_heads = 1, hca_is_causal = False, hca_scale = 1\<rparr>,
          sa_scale = 1\<rparr>]\<rparr>,
      \<lparr>next_addr = 12,
       cells = (\<lambda>a. replicate 6 1)(10 := replicate 8 (1 / 2), 11 := replicate 8 (1 / 2))\<rparr>)"
  by (simp add: SD1HistogramAdapter_new_def example_unet_def example_self_attention_def
      example_cross_attention_def example_heap_def instantiate_def
      CrossAttentionAdapter_new_def structural_copy_def Linear_new_def alloc_def Let_def split_beta
      map_replicate_const)

text \<open>
  Claim C1. For every embedding \<^verbatim>\<open>e\<close> and every context, after
  \<^verbatim>\<open>set_histogram_embedding(e)\<close> each sub-adapter that the constructor built reads, in
  both chains of its branch, the context \<^verbatim>\<open>ip_adapter\<close> under the key
  \<^verbatim>\<open>clip_image_embedding\<close>, the namespace and key that line 335 writes; both reads return
  \<^verbatim>\<open>e\<close>, and the forward pass of the branch is the attention over the two projections
  of \<^verbatim>\<open>e\<close>. The sub-adapters are instances of \<^verbatim>\<open>CrossAttentionAdapter\<close> (line 304),
  whose branch is the one of the image-prompt module.
\<close>

theorem injected_branches_read_embedding:
  "list_all
     (\<lambda>s. key_use_context (sa_branch s)
            = \<lparr>uc_context = ''ip_adapter'', uc_key = ''clip_image_embedding''\<rparr>
        \<and> value_use_context (sa_branch s)
            = \<lparr>uc_context = ''ip_adapter'', uc_key = ''clip_image_embedding''\<rparr>
        \<and> UseContext (key_use_context (sa_branch s)) (set_histogram_embedding ctx e) = Inr e
        \<and> UseContext (value_use_context (sa_branch s)) (set_histogram_embedding ctx e) = Inr e
        \<and> HistogramCrossAttention_forward attn h' (set_histogram_embedding ctx e) (sa_branch s) q k v
            = bind_err (Linear_forward h' (key_linear (sa_branch s)) e) (\<lambda>k'.
              bind_err (Linear_forward h' (value_linear (sa_branch s)) e) (\<lambda>v'.
              bind_err (ScaledDotProductAttention attn (hca_num_heads (sa_branch s))
                          (hca_is_causal (sa_branch s)) q k' v') (\<lambda>a.
              Inr (Multiply (hca_scale (sa_branch s)) a)))))
     (sub_adapters (fst (SD1HistogramAdapter_new rng target histogram_encoder scale h)))"
proof -
  have "\<And>s. s \<in> set (sub_adapters (fst (SD1HistogramAdapter_new rng target histogram_encoder scale h)))
        \<Longrightarrow> key_use_context (sa_branch s)
            = \<lparr>uc_context = ''ip_adapter'', uc_key = ''clip_image_embedding''\<rparr>
        \<and> value_use_context (sa_branch s)
            = \<lparr>uc_context = ''ip_adapter'', uc_key = ''clip_image_embedding''\<rparr>
        \<and> UseContext (key_use_context (sa_branch s)) (set_histogram_embedding ctx e) = Inr e
        \<and> UseContext (value_use_context (sa_branch s)) (set_histogram_embedding ctx e) = Inr e
        \<and> HistogramCrossAttention_forward attn h' (set_histogram_embedding ctx e) (sa_branch s) q k v
            = bind_err (Linear_forward h' (key_linear (sa_branch s)) e) (\<lambda>k'.
              bind_err (Linear_forward h' (value_linear (sa_branch s)) e) (\<lambda>v'.
              bind_err (ScaledDotProductAttention attn (hca_num_heads (sa_branch s))
                          (hca_is_causal (sa_branch s)) q k' v') (\<lambda>a.
              Inr (Multiply (hca_scale (sa_branch s)) a))))"
  proof -
    fix s assume "s \<in> set (sub_adapters (fst (SD1HistogramAdapter_new rng target histogram_encoder scale h)))"
    then have b: "built_between h (snd (SD1HistogramAdapter_new rng target histogram_encoder scale h)) s"
      by (rule adapter_sub_adapters_built)
    then have kc: "key_use_context (sa_branch s)
            = \<lparr>uc_context = ''ip_adapter'', uc_key = ''clip_image_embedding''\<rparr>"
      and vc: "value_use_context (sa_branch s)
            = \<lparr>uc_context = ''ip_adapter'', uc_key = ''clip_image_embedding''\<rparr>"
      by (simp_all add: built_between_def)
    show "key_use_context (sa_branch s)
            = \<lparr>uc_context = ''ip_adapter'', uc_key = ''clip_image_embedding''\<rparr>
        \<and> value_use_context (sa_branch s)
            = \<lparr>uc_context = ''ip_adapter'', uc_key = ''clip_image_embedding''\<rparr>
        \<and> UseContext (key_use_context (sa_branch s)) (set_histogram_embedding ctx e) = Inr e
        \<and> UseContext (value_use_context (sa_branch s)) (set_histogram_embedding ctx e) = Inr e
        \<and> HistogramCrossAttention_forward attn h' (set_histogram_embedding ctx e) (sa_branch s) q k v
            = bind_err (Linear_forward h' (key_linear (sa_branch s)) e) (\<lambda>k'.
              bind_err (Linear_forward h' (value_linear (sa_branch s)) e) (\<lambda>v'.
              bind_err (ScaledDotProductAttention attn (hca_num_heads (sa_branch s))
                          (hca_is_causal (sa_branch s)) q k' v') (\<lambda>a.
              Inr (Multiply (hca_scale (sa_branch s)) a))))"
      by (simp add: kc vc UseContext_after_set HistogramCrossAttention_forward_def bind_err_def)
  qed
  then show ?thesis by (simp only: list_all_iff) blast
qed

theorem injected_branches_read_embedding_witness:
  "length (sub_adapters (fst (SD1HistogramAdapter_new (\<lambda>a i. 1 / 2) example_unet example_encoder 1 example_heap))) = 1
   \<and> UseContext (key_use_context (sa_branch (hd (sub_adapters (fst (SD1HistogramAdapter_new (\<lambda>a i. 1 / 2) example_unet example_encoder 1 example_heap))))))
        (set_histogram_embedding (\<lambda>name. None) \<lparr>ncols = 4, rows = [[1, 2, 3, 4]]\<rparr>)
      = Inr \<lparr>ncols = 4, rows = [[1, 2, 3, 4]]\<rparr>
   \<and> UseContext (value_use_context (sa_branch (hd (sub_adapters (fst (SD1HistogramAdapter_new (\<lambda>a i. 1 / 2) example_unet example_encoder 1 example_heap))))))
        (set_histogram_embedding (\<lambda>name. None) \<lparr>ncols = 4, rows = [[1, 2, 3, 4]]\<rparr>)
      = Inr \<lparr>ncols = 4, rows = [[1, 2, 3, 4]]\<rparr>"
proof -
  let ?subs = "sub_adapters (fst (SD1HistogramAdapter_new (\<lambda>a i. 1 / 2) example_unet example_encoder 1 example_heap))"
  let ?e = "\<lparr>ncols = 4, rows = [[1, 2, 3, 4]]\<rparr> :: matrix"
  have len: "length ?subs = 1" by (simp add: example_adapter)
  then have mem: "hd ?subs \<in> set ?subs" by (cases ?subs) simp_all
  have "\<forall>s\<in>set ?subs.
          UseContext (key_use_context (sa_branch s)) (set_histogram_embedding (\<lambda>name. None) ?e) = Inr ?e
        \<and> UseContext (value_use_context (sa_branch s)) (set_histogram_embedding (\<lambda>name. None) ?e) = Inr ?e"
    using injected_branches_read_embedding[of "\<lambda>name. None" ?e
         "\<lambda>n c hd i q k. replicate (length (rows k)) 1" example_heap
         "\<lparr>ncols = 2, rows = [[1, 2]]\<rparr>" "\<lparr>ncols = 3, rows = [[1, 0, 1]]\<rparr>"
         "\<lparr>ncols = 3, rows = [[1, 0, 1]]\<rparr>"
         "\<lambda>a i. 1 / 2" example_unet example_encoder 1 example_heap]
    unfolding list_all_iff by blast
  then have "UseContext (key_use_context (sa_branch (hd ?subs))) (set_histogram_embedding (\<lambda>name. None) ?e) = Inr ?e
        \<and> UseContext (value_use_context (sa_branch (hd ?subs))) (set_histogram_embedding (\<lambda>name. None) ?e) = Inr ?e"
    using mem by (rule bspec)
  with len show ?thesis by blast
qed


subsection \<open>The zero-initialised adapter is a no-op\<close>






























end
